theory Spec2Isabelle
  imports Main
begin

section \<open>Go strings\<close>

text \<open>
  A Go \<^verbatim>\<open>string\<close> is a sequence of bytes; \<^typ>\<open>string\<close> (a list of 8-bit
  characters) is the same thing. The functions of package \<^verbatim>\<open>strings\<close> that the
  program calls treat ASCII bytes themselves and hand every string with a byte
  \<^verbatim>\<open>>= utf8.RuneSelf\<close> to the Unicode tables. The ASCII part is modelled as the
  library computes it; the Unicode tables are not part of this repository and enter as a
  parameter (\<open>uni\<close>) of each function.
\<close>

definition isASCII :: "char \<Rightarrow> bool" where
  "isASCII c \<longleftrightarrow> of_char c < (128::nat)"

definition isUpperAZ :: "char \<Rightarrow> bool" where
  "isUpperAZ c \<longleftrightarrow> (65::nat) \<le> of_char c \<and> of_char c \<le> (90::nat)"

definition isLowerAZ :: "char \<Rightarrow> bool" where
  "isLowerAZ c \<longleftrightarrow> (97::nat) \<le> of_char c \<and> of_char c \<le> (122::nat)"

definition lowerByte :: "char \<Rightarrow> char" where
  \<comment> \<open>\<^verbatim>\<open>c += 'a' - 'A'\<close> on an upper-case letter\<close>
  "lowerByte c = (if isUpperAZ c then char_of (of_char c + (32::nat)) else c)"

definition upperByte :: "char \<Rightarrow> char" where
  \<comment> \<open>\<^verbatim>\<open>c -= 'a' - 'A'\<close> on a lower-case letter\<close>
  "upperByte c = (if isLowerAZ c then char_of (of_char c - (32::nat)) else c)"

definition ToLower :: "(string \<Rightarrow> string) \<Rightarrow> string \<Rightarrow> string" where
  \<comment> \<open>\<^verbatim>\<open>strings.ToLower\<close>; \<open>uni\<close> stands for \<^verbatim>\<open>Map(unicode.ToLower, s)\<close>\<close>
  "ToLower uni s = (if list_all isASCII s then map lowerByte s else uni s)"

definition ToUpper :: "(string \<Rightarrow> string) \<Rightarrow> string \<Rightarrow> string" where
  \<comment> \<open>\<^verbatim>\<open>strings.ToUpper\<close>; \<open>uni\<close> stands for \<^verbatim>\<open>Map(unicode.ToUpper, s)\<close>\<close>
  "ToUpper uni s = (if list_all isASCII s then map upperByte s else uni s)"

definition asciiSpace :: "char \<Rightarrow> bool" where
  \<comment> \<open>the table \<^verbatim>\<open>asciiSpace\<close>: tab, newline, vertical tab, form feed, carriage return, space\<close>
  "asciiSpace c \<longleftrightarrow> of_char c \<in> {9, 10, 11, 12, 13, 32 :: nat}"

definition TrimSpace :: "(string \<Rightarrow> string) \<Rightarrow> string \<Rightarrow> string" where
  \<comment> \<open>\<^verbatim>\<open>strings.TrimSpace\<close>; \<open>uni\<close> stands for the trimming with \<^verbatim>\<open>unicode.IsSpace\<close>\<close>
  "TrimSpace uni s =
     (if list_all isASCII s
      then rev (dropWhile asciiSpace (rev (dropWhile asciiSpace s)))
      else uni s)"

fun IndexByte :: "string \<Rightarrow> char \<Rightarrow> nat option" where
  \<comment> \<open>index of the first occurrence of the byte, \<open>None\<close> for Go's \<open>-1\<close>\<close>
  "IndexByte [] c = None"
| "IndexByte (x # xs) c =
     (if x = c then Some 0 else map_option Suc (IndexByte xs c))"

fun LastIndexByte :: "string \<Rightarrow> char \<Rightarrow> nat option" where
  \<comment> \<open>index of the last occurrence of the byte, \<open>None\<close> for Go's \<open>-1\<close>\<close>
  "LastIndexByte [] c = None"
| "LastIndexByte (x # xs) c =
     (case LastIndexByte xs c of
        Some i \<Rightarrow> Some (Suc i)
      | None \<Rightarrow> (if x = c then Some 0 else None))"

definition SplitN2 :: "string \<Rightarrow> char \<Rightarrow> string list" where
  \<comment> \<open>\<^verbatim>\<open>strings.SplitN(s, sep, 2)\<close> for a separator of one byte\<close>
  "SplitN2 s sep =
     (case IndexByte s sep of
        None \<Rightarrow> [s]
      | Some i \<Rightarrow> [take i s, drop (Suc i) s])"

section \<open>Errors\<close>

text \<open>
  A Go \<^verbatim>\<open>error\<close> is a value. The errors this program makes itself, or that the
  request constructor makes, are constructors of their own; every error that a library or
  the network hands back (dial, handshake, URL parsing, round trip) is a value of the
  type parameter \<open>'e\<close>, carried unchanged.
\<close>

datatype 'e error =
    Errorf string          \<comment> \<open>\<^verbatim>\<open>fmt.Errorf\<close> or \<^verbatim>\<open>errors.New\<close> with this message\<close>
  | InvalidMethod string   \<comment> \<open>\<^verbatim>\<open>net/http: invalid method\<close>, with the method\<close>
  | URLError string string "'e error"
      \<comment> \<open>\<^verbatim>\<open>url.Error\<close>: \<^verbatim>\<open>Op\<close>, \<^verbatim>\<open>URL\<close> and \<^verbatim>\<open>Err\<close>\<close>
  | LibError 'e            \<comment> \<open>an error value made outside this repository\<close>

section \<open>The command line: \<^verbatim>\<open>main.go\<close>\<close>

type_synonym headersFlag = "string \<rightharpoonup> string"

definition headersFlag_Set ::
  "(string \<Rightarrow> string) \<Rightarrow> headersFlag \<Rightarrow> string \<Rightarrow> 'e error option \<times> headersFlag" where
  \<comment> \<open>\<^verbatim>\<open>func (h *headersFlag) Set(value string) error\<close>: the error returned
      (\<open>None\<close> for \<^verbatim>\<open>nil\<close>) and the map afterwards\<close>
  "headersFlag_Set uni h value =
     (let parts = SplitN2 value CHR '':'' in
      if length parts \<noteq> 2
      then (Some (Errorf ''header must be in 'Key: Value' format''), h)
      else
        let key = TrimSpace uni (parts ! 0);
            val = TrimSpace uni (parts ! 1)
        in (None, h(key \<mapsto> val)))"

section \<open>Package \<^verbatim>\<open>requester\<close>\<close>

record RequestParams =
  URL :: string
  Method :: string
  JA3Profile :: string
  Headers :: "string \<rightharpoonup> string"
  RequestBody :: string

definition main_params ::
  "(string \<Rightarrow> string) \<Rightarrow> string \<Rightarrow> string \<Rightarrow> string \<Rightarrow> headersFlag \<Rightarrow> string \<Rightarrow> RequestParams" where
  \<comment> \<open>the \<^verbatim>\<open>requester.RequestParams\<close> literal of \<^verbatim>\<open>main\<close>, from the values of
      \<^verbatim>\<open>-method\<close>, \<^verbatim>\<open>-ja3\<close>, \<^verbatim>\<open>-data\<close>, the accumulated \<^verbatim>\<open>-H\<close> map and the one
      positional argument\<close>
  "main_params uni method ja3Profile data headers url =
     \<lparr> URL = url,
       Method = ToUpper uni method,
       JA3Profile = ja3Profile,
       Headers = headers,
       RequestBody = data \<rparr>"

subsection \<open>1. Selecting the ClientHelloID\<close>

text \<open>
  The five handshake descriptors are constants of the uTLS library; the program only
  names them.
\<close>

datatype ClientHelloID =
    HelloChrome_108
  | HelloFirefox_108
  | HelloIOS_16
  | HelloSafari_16_0
  | HelloRandomized

definition clientHello :: "(string \<Rightarrow> string) \<Rightarrow> string \<Rightarrow> ClientHelloID" where
  \<comment> \<open>the first \<^verbatim>\<open>switch\<close> of \<^verbatim>\<open>SendRequest\<close>, on the profile name\<close>
  "clientHello uni ja3Profile =
     (let l = ToLower uni ja3Profile in
      if l = ''chrome'' then HelloChrome_108
      else if l = ''firefox'' then HelloFirefox_108
      else if l = ''ios'' then HelloIOS_16
      else if l = ''safari'' then HelloSafari_16_0
      else if l = ''random'' then HelloRandomized
      else HelloChrome_108)"

subsection \<open>2. The custom dialer\<close>

record Dialer =
  Timeout :: nat     \<comment> \<open>seconds\<close>
  KeepAlive :: nat   \<comment> \<open>seconds\<close>

definition dialer :: Dialer where
  "dialer = \<lparr> Timeout = 30, KeepAlive = 30 \<rparr>"

text \<open>
  \<^verbatim>\<open>net.SplitHostPort\<close>, as the Go library computes it: the port starts after the last
  colon; a host in brackets must end just before that colon; a host without brackets
  must hold no colon.
\<close>

datatype AddrError = AddrError string string   \<comment> \<open>\<^verbatim>\<open>Err\<close> and \<^verbatim>\<open>Addr\<close>\<close>

definition missingPort :: string where
  "missingPort = ''missing port in address''"

definition tooManyColons :: string where
  "tooManyColons = ''too many colons in address''"

definition SplitHostPort_rest ::
  "string \<Rightarrow> nat \<Rightarrow> string \<Rightarrow> nat \<Rightarrow> nat \<Rightarrow> AddrError + (string \<times> string)" where
  \<comment> \<open>the checks after \<open>host\<close>, \<open>j\<close> and \<open>k\<close> are set\<close>
  "SplitHostPort_rest hostport i host j k =
     (if IndexByte (drop j hostport) CHR ''['' \<noteq> None
      then Inl (AddrError ''unexpected '[' in address'' hostport)
      else if IndexByte (drop k hostport) CHR '']'' \<noteq> None
      then Inl (AddrError ''unexpected ']' in address'' hostport)
      else Inr (host, drop (Suc i) hostport))"

definition SplitHostPort :: "string \<Rightarrow> AddrError + (string \<times> string)" where
  "SplitHostPort hostport =
     (case LastIndexByte hostport CHR '':'' of
        None \<Rightarrow> Inl (AddrError missingPort hostport)
      | Some i \<Rightarrow>
          if take 1 hostport = ''[''
          then
            (case IndexByte hostport CHR '']'' of
               None \<Rightarrow> Inl (AddrError ''missing ']' in address'' hostport)
             | Some endb \<Rightarrow>
                 if Suc endb = length hostport
                 then Inl (AddrError missingPort hostport)
                 else if Suc endb = i
                 then SplitHostPort_rest hostport i
                        (take (endb - 1) (drop 1 hostport)) 1 (Suc endb)
                 else if hostport ! Suc endb = CHR '':''
                 then Inl (AddrError tooManyColons hostport)
                 else Inl (AddrError missingPort hostport))
          else
            (let host = take i hostport in
             if IndexByte host CHR '':'' \<noteq> None
             then Inl (AddrError tooManyColons hostport)
             else SplitHostPort_rest hostport i host 0 0))"

record Config =
  ServerName :: string
  InsecureSkipVerify :: bool

record 'c UConn =
  Conn :: 'c                      \<comment> \<open>the raw connection underneath\<close>
  config :: Config
  ClientHelloID :: ClientHelloID

definition UClient :: "'c \<Rightarrow> Config \<Rightarrow> ClientHelloID \<Rightarrow> 'c UConn" where
  "UClient conn cfg hello = \<lparr> Conn = conn, config = cfg, ClientHelloID = hello \<rparr>"

text \<open>
  What \<^verbatim>\<open>dialTLS\<close> does to the network is the list of the calls it makes, in the
  order it makes them. \<^verbatim>\<open>uconn.Close()\<close> closes the connection underneath. What
  the network answers is a parameter: \<open>Dial\<close> gives an error or a raw connection,
  \<open>Handshake\<close> gives the error of the handshake on a uTLS connection, \<open>None\<close> for
  \<^verbatim>\<open>nil\<close>.
\<close>

datatype 'c call =
    DialCall Dialer string string
  | HandshakeCall "'c UConn"
  | CloseCall "'c UConn"

definition dialTLS ::
  "(Dialer \<Rightarrow> string \<Rightarrow> string \<Rightarrow> 'e + 'c) \<Rightarrow> ('c UConn \<Rightarrow> 'e option) \<Rightarrow>
   ClientHelloID \<Rightarrow> string \<Rightarrow> string \<Rightarrow> ('e + 'c UConn) \<times> 'c call list" where
  "dialTLS Dial Handshake hello network addr =
     (case Dial dialer network addr of
        Inl err \<Rightarrow> (Inl err, [DialCall dialer network addr])
      | Inr rawConn \<Rightarrow>
          let host = (case SplitHostPort addr of
                        Inl err \<Rightarrow> addr
                      | Inr (host, port) \<Rightarrow> host);
              cfg = \<lparr> ServerName = host, InsecureSkipVerify = True \<rparr>;
              uconn = UClient rawConn cfg hello
          in case Handshake uconn of
               Some err \<Rightarrow>
                 (Inl err,
                  [DialCall dialer network addr, HandshakeCall uconn, CloseCall uconn])
             | None \<Rightarrow>
                 (Inr uconn, [DialCall dialer network addr, HandshakeCall uconn]))"

subsection \<open>3. The HTTP client\<close>

record ('e, 'c) Transport =
  DialTLS :: "string \<Rightarrow> string \<Rightarrow> ('e + 'c UConn) \<times> 'c call list"
  TLSClientConfig :: Config

record ('e, 'c) Client =
  Transport :: "('e, 'c) Transport"
  ClientTimeout :: nat   \<comment> \<open>the field \<^verbatim>\<open>Timeout\<close>, in seconds\<close>

definition client ::
  "(Dialer \<Rightarrow> string \<Rightarrow> string \<Rightarrow> 'e + 'c) \<Rightarrow> ('c UConn \<Rightarrow> 'e option) \<Rightarrow>
   ClientHelloID \<Rightarrow> ('e, 'c) Client" where
  "client Dial Handshake hello =
     \<lparr> Transport =
         \<lparr> DialTLS = dialTLS Dial Handshake hello,
           TLSClientConfig = \<lparr> ServerName = [], InsecureSkipVerify = True \<rparr> \<rparr>,
       ClientTimeout = 60 \<rparr>"

subsection \<open>4. Building the HTTP request\<close>

text \<open>
  Package \<^verbatim>\<open>net/http\<close>, as far as \<^verbatim>\<open>SendRequest\<close> uses it. A token byte is a
  \<^verbatim>\<open>tchar\<close> of RFC 7230: a letter, a digit or one of
  \<^verbatim>\<open>! # $ % & ' * + - . ^ _ ` | ~\<close>. Methods and canonical header keys are made of them.
\<close>

definition isTokenByte :: "char \<Rightarrow> bool" where
  "isTokenByte c \<longleftrightarrow>
     (let n = (of_char c :: nat) in
      n \<in> {33, 35, 36, 37, 38, 39, 42, 43, 45, 46, 94, 95, 96, 124, 126} \<or>
      (48 \<le> n \<and> n \<le> 57) \<or> (65 \<le> n \<and> n \<le> 90) \<or> (97 \<le> n \<and> n \<le> 122))"

definition validMethod :: "string \<Rightarrow> bool" where
  "validMethod method \<longleftrightarrow> 0 < length method \<and> list_all isTokenByte method"

fun canonicalCase :: "bool \<Rightarrow> string \<Rightarrow> string" where
  \<comment> \<open>upper case for the first letter and after each dash, lower case elsewhere\<close>
  "canonicalCase upper [] = []"
| "canonicalCase upper (c # cs) =
     (let c' = (if upper \<and> isLowerAZ c then upperByte c
                else if \<not> upper \<and> isUpperAZ c then lowerByte c
                else c)
      in c' # canonicalCase (c' = CHR ''-'') cs)"

definition CanonicalMIMEHeaderKey :: "string \<Rightarrow> string" where
  \<comment> \<open>\<^verbatim>\<open>textproto.CanonicalMIMEHeaderKey\<close>: a key with a space or any other byte
      that is no token byte is returned as it is\<close>
  "CanonicalMIMEHeaderKey s = (if list_all isTokenByte s then canonicalCase True s else s)"

type_synonym Header = "string \<rightharpoonup> string list"

definition Header_Set :: "Header \<Rightarrow> string \<Rightarrow> string \<Rightarrow> Header" where
  \<comment> \<open>\<^verbatim>\<open>func (h Header) Set(key, value string)\<close>\<close>
  "Header_Set h key value = h(CanonicalMIMEHeaderKey key \<mapsto> [value])"

definition Header_Values :: "Header \<Rightarrow> string \<Rightarrow> string list" where
  \<comment> \<open>\<^verbatim>\<open>func (h Header) Values(key string) []string\<close>\<close>
  "Header_Values h key =
     (case h (CanonicalMIMEHeaderKey key) of None \<Rightarrow> [] | Some vs \<Rightarrow> vs)"

definition Header_Get :: "Header \<Rightarrow> string \<Rightarrow> string" where
  \<comment> \<open>\<^verbatim>\<open>func (h Header) Get(key string) string\<close>\<close>
  "Header_Get h key =
     (case h (CanonicalMIMEHeaderKey key) of
        None \<Rightarrow> []
      | Some [] \<Rightarrow> []
      | Some (v # vs) \<Rightarrow> v)"

datatype Reader = NewReader string   \<comment> \<open>\<^verbatim>\<open>strings.NewReader(s)\<close>, nothing read yet\<close>

fun Len :: "Reader \<Rightarrow> nat" where
  "Len (NewReader s) = length s"

datatype Body = NoBody | NopCloser Reader

fun ReadAll :: "Body \<Rightarrow> string" where
  \<comment> \<open>the bytes a body yields when it is read to its end\<close>
  "ReadAll NoBody = []"
| "ReadAll (NopCloser (NewReader s)) = s"

text \<open>
  \<^verbatim>\<open>url.Parse\<close>, as far as the scheme goes: the text before the first \<^verbatim>\<open>#\<close> must hold
  no control byte; \<^verbatim>\<open>getScheme\<close> splits a leading scheme off (letters, then letters,
  digits, \<^verbatim>\<open>+\<close>, \<^verbatim>\<open>-\<close> and \<^verbatim>\<open>.\<close>, up to a colon) and finds none otherwise; the
  scheme is put in lower case. Everything the parser does after that (authority, host,
  path, query, fragment) is not part of this repository and enters as the parameter
  \<open>parseRest\<close>, from the scheme, the text after it and the fragment to the host and the
  other fields of the URL, or to the parser's error.
\<close>

record 'u url_URL =
  Scheme :: string
  Host :: string
  other :: 'u   \<comment> \<open>the other fields of \<^verbatim>\<open>url.URL\<close>\<close>

definition stringContainsCTLByte :: "string \<Rightarrow> bool" where
  "stringContainsCTLByte s \<longleftrightarrow>
     list_ex (\<lambda>b. of_char b < (32::nat) \<or> of_char b = (127::nat)) s"

definition isDigit :: "char \<Rightarrow> bool" where
  "isDigit c \<longleftrightarrow> (48::nat) \<le> of_char c \<and> of_char c \<le> (57::nat)"

definition schemeByte :: "char \<Rightarrow> bool" where
  \<comment> \<open>a byte that \<^verbatim>\<open>getScheme\<close> lets stand in a scheme\<close>
  "schemeByte c \<longleftrightarrow>
     isLowerAZ c \<or> isUpperAZ c \<or> isDigit c \<or> c = CHR ''+'' \<or> c = CHR ''-'' \<or> c = CHR ''.''"

fun getScheme_loop :: "string \<Rightarrow> nat \<Rightarrow> string \<Rightarrow> string + string \<times> string" where
  \<comment> \<open>the loop of \<^verbatim>\<open>getScheme\<close> at index \<open>i\<close>, with the bytes from \<open>i\<close> on\<close>
  "getScheme_loop rawURL i [] = Inr ([], rawURL)"
| "getScheme_loop rawURL i (c # cs) =
     (if isLowerAZ c \<or> isUpperAZ c then getScheme_loop rawURL (Suc i) cs
      else if isDigit c \<or> c = CHR ''+'' \<or> c = CHR ''-'' \<or> c = CHR ''.''
      then (if i = 0 then Inr ([], rawURL) else getScheme_loop rawURL (Suc i) cs)
      else if c = CHR '':''
      then (if i = 0 then Inl ''missing protocol scheme''
            else Inr (take i rawURL, drop (Suc i) rawURL))
      else Inr ([], rawURL))"

definition getScheme :: "string \<Rightarrow> string + string \<times> string" where
  \<comment> \<open>the scheme and the text after it, or the message of the error\<close>
  "getScheme rawURL = getScheme_loop rawURL 0 rawURL"

definition url_Parse ::
  "(string \<Rightarrow> string) \<Rightarrow> (string \<Rightarrow> string \<Rightarrow> string \<Rightarrow> 'e + string \<times> 'u) \<Rightarrow> string \<Rightarrow>
   'e error + 'u url_URL" where
  \<comment> \<open>\<^verbatim>\<open>url.Parse\<close>; \<open>uni\<close> is the Unicode part of \<^verbatim>\<open>strings.ToLower\<close>\<close>
  "url_Parse uni parseRest rawURL =
     (let u = takeWhile (\<lambda>c. c \<noteq> CHR ''#'') rawURL;
          frag = drop (Suc (length u)) rawURL
      in if stringContainsCTLByte u
         then Inl (URLError ''parse'' u
                     (Errorf ''net/url: invalid control character in URL''))
         else
           case getScheme u of
             Inl msg \<Rightarrow> Inl (URLError ''parse'' u (Errorf msg))
           | Inr (scheme, rest) \<Rightarrow>
               (case parseRest (ToLower uni scheme) rest frag of
                  Inl err \<Rightarrow> Inl (LibError err)
                | Inr (host, rem) \<Rightarrow>
                    Inr \<lparr> Scheme = ToLower uni scheme, Host = host, other = rem \<rparr>))"

definition LastIndex :: "string \<Rightarrow> char \<Rightarrow> int" where
  \<comment> \<open>\<^verbatim>\<open>strings.LastIndex\<close> for a separator of one byte\<close>
  "LastIndex s c = (case LastIndexByte s c of None \<Rightarrow> - 1 | Some i \<Rightarrow> int i)"

definition hasPort :: "string \<Rightarrow> bool" where
  "hasPort s \<longleftrightarrow> LastIndex s CHR '':'' > LastIndex s CHR '']''"

definition TrimSuffix :: "string \<Rightarrow> string \<Rightarrow> string" where
  \<comment> \<open>\<^verbatim>\<open>strings.TrimSuffix\<close>\<close>
  "TrimSuffix s suffix =
     (if length suffix \<le> length s \<and> drop (length s - length suffix) s = suffix
      then take (length s - length suffix) s
      else s)"

definition removeEmptyPort :: "string \<Rightarrow> string" where
  \<comment> \<open>strips the empty port of \<^verbatim>\<open>host:\<close>\<close>
  "removeEmptyPort host = (if hasPort host then TrimSuffix host '':'' else host)"

record 'u Request =
  reqMethod :: string       \<comment> \<open>the field \<^verbatim>\<open>Method\<close>\<close>
  reqURL :: "'u url_URL"    \<comment> \<open>the field \<^verbatim>\<open>URL\<close>\<close>
  Header :: Header
  Body :: Body
  ContentLength :: int
  reqHost :: string         \<comment> \<open>the field \<^verbatim>\<open>Host\<close>\<close>

definition NewRequest ::
  "(string \<Rightarrow> string) \<Rightarrow> (string \<Rightarrow> string \<Rightarrow> string \<Rightarrow> 'e + string \<times> 'u) \<Rightarrow>
   string \<Rightarrow> string \<Rightarrow> Reader \<Rightarrow> 'e error + 'u Request" where
  \<comment> \<open>\<^verbatim>\<open>http.NewRequest\<close> on a \<^verbatim>\<open>*strings.Reader\<close>\<close>
  "NewRequest uni parseRest method url body =
     (let method = (if method = [] then ''GET'' else method) in
      if \<not> validMethod method then Inl (InvalidMethod method)
      else
        case url_Parse uni parseRest url of
          Inl err \<Rightarrow> Inl err
        | Inr u \<Rightarrow>
            (let u = u\<lparr> Host := removeEmptyPort (Host u) \<rparr> in
             Inr \<lparr> reqMethod = method,
                   reqURL = u,
                   Header = Map.empty,
                   Body = (if Len body = 0 then NoBody else NopCloser body),
                   ContentLength = int (Len body),
                   reqHost = Host u \<rparr>))"

definition defaultUserAgent :: "(string \<Rightarrow> string) \<Rightarrow> string \<Rightarrow> string" where
  \<comment> \<open>the second \<^verbatim>\<open>switch\<close> of \<^verbatim>\<open>SendRequest\<close>, on the profile name\<close>
  "defaultUserAgent uni ja3Profile =
     (let l = ToLower uni ja3Profile in
      if l = ''chrome''
      then ''Mozilla/5.0 (Windows NT 10.0; Win64; x64) AppleWebKit/537.36 (KHTML, like Gecko) Chrome/108.0.0.0 Safari/537.36''
      else if l = ''firefox''
      then ''Mozilla/5.0 (Windows NT 10.0; Win64; x64; rv:108.0) Gecko/20100101 Firefox/108.0''
      else if l = ''safari''
      then ''Mozilla/5.0 (Macintosh; Intel Mac OS X 10_15_7) AppleWebKit/605.1.15 (KHTML, like Gecko) Version/16.1 Safari/605.1.15''
      else ''Mozilla/5.0 (Windows NT 10.0; Win64; x64) AppleWebKit/537.36 (KHTML, like Gecko) Chrome/108.0.0.0 Safari/537.36'')"

definition setDefaultUserAgent :: "(string \<Rightarrow> string) \<Rightarrow> RequestParams \<Rightarrow> Header \<Rightarrow> Header" where
  \<comment> \<open>\<^verbatim>\<open>if _, ok := params.Headers["User-Agent"]; !ok { ... }\<close>\<close>
  "setDefaultUserAgent uni params h =
     (if Headers params ''User-Agent'' = None
      then Header_Set h ''User-Agent'' (defaultUserAgent uni (JA3Profile params))
      else h)"

definition addCustomHeaders :: "string list \<Rightarrow> (string \<rightharpoonup> string) \<Rightarrow> Header \<Rightarrow> Header" where
  \<comment> \<open>\<^verbatim>\<open>for key, value := range params.Headers { req.Header.Set(key, value) }\<close>;
      \<open>order\<close> is the order in which \<^verbatim>\<open>range\<close> yields the keys of the map, which Go
      leaves open\<close>
  "addCustomHeaders order headers h =
     fold (\<lambda>key h. case headers key of
                      None \<Rightarrow> h
                    | Some value \<Rightarrow> Header_Set h key value) order h"

definition rangeOrder :: "string list \<Rightarrow> (string \<rightharpoonup> string) \<Rightarrow> bool" where
  \<comment> \<open>\<^verbatim>\<open>range\<close> yields every key of the map once\<close>
  "rangeOrder order headers \<longleftrightarrow> distinct order \<and> set order = dom headers"

definition buildRequest ::
  "(string \<Rightarrow> string) \<Rightarrow> (string \<Rightarrow> string \<Rightarrow> string \<Rightarrow> 'e + string \<times> 'u) \<Rightarrow>
   string list \<Rightarrow> RequestParams \<Rightarrow> 'e error + 'u Request" where
  \<comment> \<open>the request that \<^verbatim>\<open>SendRequest\<close> hands to \<^verbatim>\<open>client.Do\<close>\<close>
  "buildRequest uni parseRest order params =
     (let bodyReader =
            (if RequestBody params \<noteq> [] then NewReader (RequestBody params)
             else NewReader [])
      in case NewRequest uni parseRest (Method params) (URL params) bodyReader of
           Inl err \<Rightarrow> Inl err
         | Inr req \<Rightarrow>
             Inr (req\<lparr> Header :=
                    addCustomHeaders order (Headers params)
                      (setDefaultUserAgent uni params (Header req)) \<rparr>))"

subsection \<open>5. Executing the request\<close>

definition SendRequest ::
  "(string \<Rightarrow> string) \<Rightarrow> (string \<Rightarrow> string \<Rightarrow> string \<Rightarrow> 'e + string \<times> 'u) \<Rightarrow>
   (Dialer \<Rightarrow> string \<Rightarrow> string \<Rightarrow> 'e + 'c) \<Rightarrow> ('c UConn \<Rightarrow> 'e option) \<Rightarrow>
   (('e, 'c) Client \<Rightarrow> 'u Request \<Rightarrow> 'e + 'r) \<Rightarrow>
   string list \<Rightarrow> RequestParams \<Rightarrow> 'e error + 'r" where
  \<comment> \<open>\<open>Do\<close> stands for \<^verbatim>\<open>client.Do\<close>, the round trip\<close>
  "SendRequest uni parseRest Dial Handshake Do order params =
     (let hello = clientHello uni (JA3Profile params);
          c = client Dial Handshake hello
      in case buildRequest uni parseRest order params of
           Inl err \<Rightarrow> Inl err
         | Inr req \<Rightarrow>
             (case Do c req of
                Inl err \<Rightarrow> Inl (LibError err)
              | Inr resp \<Rightarrow> Inr resp))"

section \<open>Evaluation of bytes\<close>

lemmas byte_eval = isASCII_def isUpperAZ_def isLowerAZ_def lowerByte_def upperByte_def
  asciiSpace_def isTokenByte_def isDigit_def char_of_def bit_Suc_0_iff

section \<open>What \<^verbatim>\<open>SendRequest\<close> sends\<close>

text \<open>
  \<^verbatim>\<open>SendRequest\<close> accepts the parameters when the method is valid and the URL parses;
  the request it builds is the one it hands to \<^verbatim>\<open>client.Do\<close>, with the client of the
  chosen descriptor.
\<close>

lemma buildRequest_accepts:
  "(\<exists>req. buildRequest uni parseRest order params = Inr req) \<longleftrightarrow>
     validMethod (if Method params = [] then ''GET'' else Method params) \<and>
     (\<exists>u. url_Parse uni parseRest (URL params) = Inr u)"
  by (auto simp: buildRequest_def NewRequest_def Let_def split: sum.splits)

lemma SendRequest_sends:
  "SendRequest uni parseRest Dial Handshake Do order params = Inr resp \<longleftrightarrow>
     (\<exists>req. buildRequest uni parseRest order params = Inr req \<and>
        Do (client Dial Handshake (clientHello uni (JA3Profile params))) req = Inr resp)"
  by (auto simp: SendRequest_def Let_def split: sum.splits)

lemma SendRequest_build_error:
  "buildRequest uni parseRest order params = Inl err \<Longrightarrow>
     SendRequest uni parseRest Dial Handshake Do order params = Inl err"
  by (simp add: SendRequest_def)

section \<open>The header flag\<close>

lemma IndexByte_None_iff: "IndexByte s c = None \<longleftrightarrow> c \<notin> set s"
  by (induction s) auto

lemma IndexByte_Some_split:
  "IndexByte s c = Some i \<Longrightarrow>
     take i s = takeWhile (\<lambda>x. x \<noteq> c) s \<and> drop (Suc i) s = tl (dropWhile (\<lambda>x. x \<noteq> c) s)"
  by (induction s arbitrary: i) (auto split: if_splits)

lemma SplitN2_no_sep: "sep \<notin> set s \<Longrightarrow> SplitN2 s sep = [s]"
  by (simp add: SplitN2_def IndexByte_None_iff[THEN iffD2])

lemma SplitN2_sep:
  "sep \<in> set s \<Longrightarrow>
     SplitN2 s sep = [takeWhile (\<lambda>x. x \<noteq> sep) s, tl (dropWhile (\<lambda>x. x \<noteq> sep) s)]"
proof -
  assume "sep \<in> set s"
  then obtain i where i: "IndexByte s sep = Some i"
    using IndexByte_None_iff[of s sep] by (cases "IndexByte s sep") auto
  from IndexByte_Some_split[OF i] i show ?thesis
    by (simp add: SplitN2_def)
qed

text \<open>
  Claim C10. For every argument of \<^verbatim>\<open>-H\<close> and every header map accumulated so far:
  an argument without a colon is rejected with the format error and the map stays as it
  was; an argument with a colon is accepted (the error is \<^verbatim>\<open>nil\<close>) and the map
  afterwards is the map before with one entry stored, the trimmed text before the first
  colon as key and the trimmed text after it as value.
\<close>

theorem headersFlag_Set_colon:
  "(CHR '':'' \<notin> set value \<longrightarrow>
      headersFlag_Set uni h value =
        (Some (Errorf ''header must be in 'Key: Value' format''), h)) \<and>
   (CHR '':'' \<in> set value \<longrightarrow>
      headersFlag_Set uni h value =
        (None, h(TrimSpace uni (takeWhile (\<lambda>x. x \<noteq> CHR '':'') value) \<mapsto>
                 TrimSpace uni (tl (dropWhile (\<lambda>x. x \<noteq> CHR '':'') value)))))"
  by (simp add: headersFlag_Set_def SplitN2_no_sep SplitN2_sep)

theorem headersFlag_Set_colon_witness:
  "headersFlag_Set id Map.empty ''no separator'' =
     (Some (Errorf ''header must be in 'Key: Value' format'' :: unit error), Map.empty) \<and>
   headersFlag_Set id [''Accept'' \<mapsto> ''*/*''] ''Content-Type:  application/json '' =
     (None :: unit error option,
      [''Accept'' \<mapsto> ''*/*'', ''Content-Type'' \<mapsto> ''application/json''])"
  using headersFlag_Set_colon[of "''no separator''" id Map.empty, where ?'a = unit]
    headersFlag_Set_colon[of "''Content-Type:  application/json ''" id
      "[''Accept'' \<mapsto> ''*/*'']", where ?'a = unit]
  by (simp add: TrimSpace_def byte_eval)

section \<open>The profile table\<close>

lemma lowerByte_ascii: "isASCII (lowerByte c) \<Longrightarrow> isASCII c"
  by (auto simp: lowerByte_def isASCII_def isUpperAZ_def split: if_splits)

lemma map_lowerByte_ascii: "list_all isASCII (map lowerByte s) \<Longrightarrow> list_all isASCII s"
  by (induction s) (auto dest: lowerByte_ascii)

lemma ToLower_capitalization:
  "map lowerByte s = t \<Longrightarrow> list_all isASCII t \<Longrightarrow> ToLower uni s = t"
  using map_lowerByte_ascii[of s] by (simp add: ToLower_def)

lemma ascii_chrome: "list_all isASCII ''chrome''" by (simp add: isASCII_def)
lemma ascii_firefox: "list_all isASCII ''firefox''" by (simp add: isASCII_def)
lemma ascii_ios: "list_all isASCII ''ios''" by (simp add: isASCII_def)
lemma ascii_safari: "list_all isASCII ''safari''" by (simp add: isASCII_def)
lemma ascii_random: "list_all isASCII ''random''" by (simp add: isASCII_def)

lemmas ToLower_names =
  ToLower_capitalization[OF _ ascii_chrome] ToLower_capitalization[OF _ ascii_firefox]
  ToLower_capitalization[OF _ ascii_ios] ToLower_capitalization[OF _ ascii_safari]
  ToLower_capitalization[OF _ ascii_random]

text \<open>
  Claim C1, as the code has it. The lookup is pure and case-insensitive over a fixed
  table: every capitalization of \<^verbatim>\<open>chrome\<close>, \<^verbatim>\<open>firefox\<close>, \<^verbatim>\<open>ios\<close>, \<^verbatim>\<open>safari\<close> and
  \<^verbatim>\<open>random\<close> gives \<^verbatim>\<open>HelloChrome_108\<close>, \<^verbatim>\<open>HelloFirefox_108\<close>, \<^verbatim>\<open>HelloIOS_16\<close>,
  \<^verbatim>\<open>HelloSafari_16_0\<close> and \<^verbatim>\<open>HelloRandomized\<close>; every name whose lower case is none
  of the five gives the descriptor of \<^verbatim>\<open>chrome\<close>, with no error and with nothing that
  tells the fallback from a hit (the result is the very value \<^verbatim>\<open>chrome\<close> gives); and two
  names with the same lower case, so also the same name twice, give equal descriptors.
\<close>

theorem clientHello_table:
  "(map lowerByte name = ''chrome'' \<longrightarrow> clientHello uni name = HelloChrome_108) \<and>
   (map lowerByte name = ''firefox'' \<longrightarrow> clientHello uni name = HelloFirefox_108) \<and>
   (map lowerByte name = ''ios'' \<longrightarrow> clientHello uni name = HelloIOS_16) \<and>
   (map lowerByte name = ''safari'' \<longrightarrow> clientHello uni name = HelloSafari_16_0) \<and>
   (map lowerByte name = ''random'' \<longrightarrow> clientHello uni name = HelloRandomized) \<and>
   (ToLower uni name \<notin> {''chrome'', ''firefox'', ''ios'', ''safari'', ''random''} \<longrightarrow>
      clientHello uni name = HelloChrome_108 \<and>
      clientHello uni name = clientHello uni ''chrome'') \<and>
   (ToLower uni name = ToLower uni name' \<longrightarrow> clientHello uni name = clientHello uni name')"
proof (intro conjI impI)
  assume "map lowerByte name = ''chrome''"
  then show "clientHello uni name = HelloChrome_108"
    by (simp add: clientHello_def ToLower_names)
next
  assume "map lowerByte name = ''firefox''"
  then show "clientHello uni name = HelloFirefox_108"
    by (simp add: clientHello_def ToLower_names)
next
  assume "map lowerByte name = ''ios''"
  then show "clientHello uni name = HelloIOS_16"
    by (simp add: clientHello_def ToLower_names)
next
  assume "map lowerByte name = ''safari''"
  then show "clientHello uni name = HelloSafari_16_0"
    by (simp add: clientHello_def ToLower_names)
next
  assume "map lowerByte name = ''random''"
  then show "clientHello uni name = HelloRandomized"
    by (simp add: clientHello_def ToLower_names)
next
  assume other: "ToLower uni name \<notin> {''chrome'', ''firefox'', ''ios'', ''safari'', ''random''}"
  then show "clientHello uni name = HelloChrome_108"
    by (simp add: clientHello_def)
  have "ToLower uni ''chrome'' = ''chrome''"
    by (simp add: ToLower_def byte_eval)
  with other show "clientHello uni name = clientHello uni ''chrome''"
    by (simp add: clientHello_def)
next
  assume "ToLower uni name = ToLower uni name'"
  then show "clientHello uni name = clientHello uni name'"
    by (simp add: clientHello_def)
qed

theorem clientHello_table_witness:
  "clientHello id ''Chrome'' = HelloChrome_108 \<and>
   clientHello id ''FIREFOX'' = HelloFirefox_108 \<and>
   clientHello id ''iOS'' = HelloIOS_16 \<and>
   clientHello id ''SaFaRi'' = HelloSafari_16_0 \<and>
   clientHello id ''random'' = HelloRandomized \<and>
   clientHello id ''netscape'' = HelloChrome_108 \<and>
   clientHello id ''netscape'' = clientHello id ''chrome'' \<and>
   clientHello id ''Safari'' = clientHello id ''sAFARI''"
proof -
  have c: "clientHello id ''Chrome'' = HelloChrome_108"
    using clientHello_table[of "''Chrome''" id "[]"] by (simp add: byte_eval)
  have f: "clientHello id ''FIREFOX'' = HelloFirefox_108"
    using clientHello_table[of "''FIREFOX''" id "[]"] by (simp add: byte_eval)
  have i: "clientHello id ''iOS'' = HelloIOS_16"
    using clientHello_table[of "''iOS''" id "[]"] by (simp add: byte_eval)
  have s: "clientHello id ''SaFaRi'' = HelloSafari_16_0"
    using clientHello_table[of "''SaFaRi''" id "[]"] by (simp add: byte_eval)
  have r: "clientHello id ''random'' = HelloRandomized"
    using clientHello_table[of "''random''" id "[]"] by (simp add: byte_eval)
  have n: "clientHello id ''netscape'' = HelloChrome_108 \<and>
           clientHello id ''netscape'' = clientHello id ''chrome''"
  proof -
    have "ToLower id ''netscape'' \<notin> {''chrome'', ''firefox'', ''ios'', ''safari'', ''random''}"
      by (simp add: ToLower_def byte_eval)
    with clientHello_table[of "''netscape''" id "[]"] show ?thesis by blast
  qed
  have e: "clientHello id ''Safari'' = clientHello id ''sAFARI''"
  proof -
    have "ToLower id ''Safari'' = ToLower id ''sAFARI''"
      by (simp add: ToLower_def byte_eval)
    with clientHello_table[of "''Safari''" id "''sAFARI''"] show ?thesis by blast
  qed
  from c f i s r n e show ?thesis by blast
qed

text \<open>
  Claim C1 as stated also has the lookup signal the fallback (\<^verbatim>\<open>bool=false\<close>). The
  switch yields a descriptor and nothing else: for an unknown name, the descriptor and the
  default identification string are those of \<^verbatim>\<open>chrome\<close>, so no result of the lookup
  says that the name was unknown.
\<close>

theorem clientHello_no_fallback_signal:
  "clientHello id ''netscape'' = clientHello id ''chrome'' \<and>
   defaultUserAgent id ''netscape'' = defaultUserAgent id ''chrome''"
  by (simp add: clientHello_def defaultUserAgent_def ToLower_def byte_eval)


section \<open>The fingerprinting transport\<close>

text \<open>
  What \<^verbatim>\<open>net.SplitHostPort\<close> makes of the two usual shapes of an address: without a
  colon there is no port and the split fails; a host and a port without colons and
  brackets, joined by a colon, are given back as they are.
\<close>

lemma LastIndexByte_None_iff: "LastIndexByte s c = None \<longleftrightarrow> c \<notin> set s"
  by (induction s) (auto split: option.splits)

lemma LastIndexByte_append_sep:
  "c \<notin> set port \<Longrightarrow> LastIndexByte (host @ c # port) c = Some (length host)"
  by (induction host) (auto simp: LastIndexByte_None_iff[THEN iffD2])

lemma SplitHostPort_no_colon:
  "CHR '':'' \<notin> set addr \<Longrightarrow> SplitHostPort addr = Inl (AddrError missingPort addr)"
  by (simp add: SplitHostPort_def LastIndexByte_None_iff[THEN iffD2])

lemma SplitHostPort_host_port:
  assumes host: "CHR '':'' \<notin> set host" "CHR ''['' \<notin> set host" "CHR '']'' \<notin> set host"
    and port: "CHR '':'' \<notin> set port" "CHR ''['' \<notin> set port" "CHR '']'' \<notin> set port"
  shows "SplitHostPort (host @ CHR '':'' # port) = Inr (host, port)"
proof -
  let ?hp = "host @ CHR '':'' # port"
  have i: "LastIndexByte ?hp CHR '':'' = Some (length host)"
    using port(1) by (rule LastIndexByte_append_sep)
  have first: "take 1 ?hp \<noteq> ''[''"
    using host(2) by (cases host) auto
  have nocolon: "IndexByte host CHR '':'' = None"
    using host(1) by (simp add: IndexByte_None_iff)
  have rest: "SplitHostPort_rest ?hp (length host) host 0 0 = Inr (host, port)"
    using host port by (simp add: SplitHostPort_rest_def IndexByte_None_iff)
  show ?thesis
    unfolding SplitHostPort_def using i first nocolon rest by simp
qed

lemmas SplitHostPort_eval = SplitHostPort_def SplitHostPort_rest_def missingPort_def
  tooManyColons_def

lemma dialTLS_Dial_error:
  "Dial dialer network addr = Inl err \<Longrightarrow>
     dialTLS Dial Handshake hello network addr = (Inl err, [DialCall dialer network addr])"
  by (simp add: dialTLS_def)

text \<open>
  Claim C2. For every dial: when the raw connect fails, that error is returned unchanged
  and the dial is the only call made (no handshake is attempted); when the raw connect
  succeeds and the handshake fails, the calls are the dial, the handshake and then the
  close of the connection, all before the return, and the error returned is the very
  error of the handshake; a connection is returned only when its handshake gave no
  error, and then it has not been closed. The errors are those of the library:
  \<^verbatim>\<open>net.Dialer\<close> makes every failure of a connect an error of the operation
  \<^verbatim>\<open>dial\<close>, and no handshake fails with such an error. So whenever no error value is
  both an error of a connect and an error of a handshake, the error returned for a failed
  handshake is no error of any connect, and no dial that fails at the connect returns it.
\<close>

theorem dialTLS_stages:
  "(\<forall>err. Dial dialer network addr = Inl err \<longrightarrow>
      dialTLS Dial Handshake hello network addr = (Inl err, [DialCall dialer network addr])) \<and>
   (\<forall>rawConn. Dial dialer network addr = Inr rawConn \<longrightarrow>
      (\<exists>uconn. Conn uconn = rawConn \<and>
         (\<forall>err. Handshake uconn = Some err \<longrightarrow>
            dialTLS Dial Handshake hello network addr =
              (Inl err,
               [DialCall dialer network addr, HandshakeCall uconn, CloseCall uconn])) \<and>
         (Handshake uconn = None \<longrightarrow>
            dialTLS Dial Handshake hello network addr =
              (Inr uconn, [DialCall dialer network addr, HandshakeCall uconn])))) \<and>
   (\<forall>uconn. fst (dialTLS Dial Handshake hello network addr) = Inr uconn \<longrightarrow>
      Handshake uconn = None \<and>
      HandshakeCall uconn \<in> set (snd (dialTLS Dial Handshake hello network addr)) \<and>
      CloseCall uconn \<notin> set (snd (dialTLS Dial Handshake hello network addr))) \<and>
   (\<forall>rawConn err.
      Dial dialer network addr = Inr rawConn \<and>
      fst (dialTLS Dial Handshake hello network addr) = Inl err \<longrightarrow>
      (\<exists>uconn. Conn uconn = rawConn \<and> Handshake uconn = Some err \<and>
         CloseCall uconn \<in> set (snd (dialTLS Dial Handshake hello network addr))) \<and>
      ((\<forall>network' addr' uconn' err'.
          Dial dialer network' addr' = Inl err' \<longrightarrow> Handshake uconn' \<noteq> Some err') \<longrightarrow>
       (\<forall>network' addr'. Dial dialer network' addr' \<noteq> Inl err) \<and>
       (\<forall>hello' network' addr' err'.
          Dial dialer network' addr' = Inl err' \<longrightarrow>
          fst (dialTLS Dial Handshake hello' network' addr') \<noteq> Inl err)))"
proof (intro conjI allI impI)
  fix err assume "Dial dialer network addr = Inl err"
  then show "dialTLS Dial Handshake hello network addr = (Inl err, [DialCall dialer network addr])"
    by (rule dialTLS_Dial_error)
next
  fix rawConn assume ok: "Dial dialer network addr = Inr rawConn"
  let ?u = "UClient rawConn
      \<lparr> ServerName = (case SplitHostPort addr of Inl err \<Rightarrow> addr | Inr (host, port) \<Rightarrow> host),
        InsecureSkipVerify = True \<rparr> hello"
  show "\<exists>uconn. Conn uconn = rawConn \<and>
         (\<forall>err. Handshake uconn = Some err \<longrightarrow>
            dialTLS Dial Handshake hello network addr =
              (Inl err,
               [DialCall dialer network addr, HandshakeCall uconn, CloseCall uconn])) \<and>
         (Handshake uconn = None \<longrightarrow>
            dialTLS Dial Handshake hello network addr =
              (Inr uconn, [DialCall dialer network addr, HandshakeCall uconn]))"
    by (rule exI[of _ ?u]) (simp add: dialTLS_def ok Let_def UClient_def)
next
  fix uconn assume r: "fst (dialTLS Dial Handshake hello network addr) = Inr uconn"
  then obtain rawConn where ok: "Dial dialer network addr = Inr rawConn"
    by (cases "Dial dialer network addr") (auto simp: dialTLS_def)
  from r show "Handshake uconn = None"
    by (auto simp: dialTLS_def ok Let_def split: option.splits)
  from r show "HandshakeCall uconn \<in> set (snd (dialTLS Dial Handshake hello network addr))"
    by (auto simp: dialTLS_def ok Let_def split: option.splits)
  from r show "CloseCall uconn \<notin> set (snd (dialTLS Dial Handshake hello network addr))"
    by (auto simp: dialTLS_def ok Let_def split: option.splits)
next
  fix rawConn err
  assume a: "Dial dialer network addr = Inr rawConn \<and>
      fst (dialTLS Dial Handshake hello network addr) = Inl err"
  then show "\<exists>uconn. Conn uconn = rawConn \<and> Handshake uconn = Some err \<and>
         CloseCall uconn \<in> set (snd (dialTLS Dial Handshake hello network addr))"
    by (auto simp: dialTLS_def Let_def UClient_def split: option.splits)
next
  fix rawConn err network' addr'
  assume a: "Dial dialer network addr = Inr rawConn \<and>
      fst (dialTLS Dial Handshake hello network addr) = Inl err"
    and lib: "\<forall>network' addr' uconn' err'.
          Dial dialer network' addr' = Inl err' \<longrightarrow> Handshake uconn' \<noteq> Some err'"
  from a obtain uconn where hs: "Handshake uconn = Some err"
    by (auto simp: dialTLS_def Let_def split: option.splits)
  with lib show "Dial dialer network' addr' \<noteq> Inl err"
    by blast
next
  fix rawConn err hello' network' addr' err'
  assume a: "Dial dialer network addr = Inr rawConn \<and>
      fst (dialTLS Dial Handshake hello network addr) = Inl err"
    and lib: "\<forall>network' addr' uconn' err'.
          Dial dialer network' addr' = Inl err' \<longrightarrow> Handshake uconn' \<noteq> Some err'"
    and d: "Dial dialer network' addr' = Inl err'"
  from a obtain uconn where hs: "Handshake uconn = Some err"
    by (auto simp: dialTLS_def Let_def split: option.splits)
  with lib d have "err' \<noteq> err" by blast
  with d show "fst (dialTLS Dial Handshake hello' network' addr') \<noteq> Inl err"
    by (simp add: dialTLS_def)
qed

theorem dialTLS_stages_witness:
  "dialTLS (\<lambda>d n a. if a = ''closed.example:443''
              then Inl ''dial tcp: connect: connection refused'' else Inr (7::nat))
      (\<lambda>u. if ServerName (config u) = ''plain.example''
            then Some ''remote error: tls: handshake failure'' else None)
      HelloChrome_108 ''tcp'' ''closed.example:443'' =
     (Inl ''dial tcp: connect: connection refused'',
      [DialCall dialer ''tcp'' ''closed.example:443'']) \<and>
   (\<exists>uconn. Conn uconn = 7 \<and>
      dialTLS (\<lambda>d n a. if a = ''closed.example:443''
                 then Inl ''dial tcp: connect: connection refused'' else Inr (7::nat))
         (\<lambda>u. if ServerName (config u) = ''plain.example''
               then Some ''remote error: tls: handshake failure'' else None)
         HelloChrome_108 ''tcp'' ''plain.example:443'' =
        (Inl ''remote error: tls: handshake failure'',
         [DialCall dialer ''tcp'' ''plain.example:443'', HandshakeCall uconn,
          CloseCall uconn])) \<and>
   (\<exists>uconn. Conn uconn = 7 \<and>
      dialTLS (\<lambda>d n a. if a = ''closed.example:443''
                 then Inl ''dial tcp: connect: connection refused'' else Inr (7::nat))
         (\<lambda>u. if ServerName (config u) = ''plain.example''
               then Some ''remote error: tls: handshake failure'' else None)
         HelloChrome_108 ''tcp'' ''example.com:443'' =
        (Inr uconn, [DialCall dialer ''tcp'' ''example.com:443'', HandshakeCall uconn])) \<and>
   fst (dialTLS (\<lambda>d n a. if a = ''closed.example:443''
                   then Inl ''dial tcp: connect: connection refused'' else Inr (7::nat))
          (\<lambda>u. if ServerName (config u) = ''plain.example''
                then Some ''remote error: tls: handshake failure'' else None)
          HelloChrome_108 ''tcp'' ''closed.example:443'') \<noteq>
     Inl ''remote error: tls: handshake failure''"
proof -
  let ?D = "\<lambda>(d::Dialer) (n::string) a. if a = ''closed.example:443''
              then Inl ''dial tcp: connect: connection refused'' else Inr (7::nat)"
  let ?H = "\<lambda>u::nat UConn. if ServerName (config u) = ''plain.example''
            then Some ''remote error: tls: handshake failure'' else None"
  have sp: "SplitHostPort ''plain.example:443'' = Inr (''plain.example'', ''443'')"
    "SplitHostPort ''example.com:443'' = Inr (''example.com'', ''443'')"
    by (simp_all add: SplitHostPort_eval)
  have lib: "\<forall>network' addr' uconn' err'.
          ?D dialer network' addr' = Inl err' \<longrightarrow> ?H uconn' \<noteq> Some err'"
    by auto
  note th1 = dialTLS_stages[where Dial = ?D and Handshake = ?H and hello = HelloChrome_108
      and network = "''tcp''" and addr = "''closed.example:443''"]
  note th2 = dialTLS_stages[where Dial = ?D and Handshake = ?H and hello = HelloChrome_108
      and network = "''tcp''" and addr = "''plain.example:443''"]
  note th3 = dialTLS_stages[where Dial = ?D and Handshake = ?H and hello = HelloChrome_108
      and network = "''tcp''" and addr = "''example.com:443''"]
  have a: "dialTLS ?D ?H HelloChrome_108 ''tcp'' ''closed.example:443'' =
     (Inl ''dial tcp: connect: connection refused'',
      [DialCall dialer ''tcp'' ''closed.example:443''])"
    using th1 by simp
  have fails: "fst (dialTLS ?D ?H HelloChrome_108 ''tcp'' ''plain.example:443'') =
      Inl ''remote error: tls: handshake failure''"
    by (simp add: dialTLS_def Let_def UClient_def sp)
  have b: "\<exists>uconn. Conn uconn = 7 \<and>
      dialTLS ?D ?H HelloChrome_108 ''tcp'' ''plain.example:443'' =
        (Inl ''remote error: tls: handshake failure'',
         [DialCall dialer ''tcp'' ''plain.example:443'', HandshakeCall uconn,
          CloseCall uconn])"
    using th2 fails by (auto split: if_splits)
  have succeeds: "\<exists>uconn. fst (dialTLS ?D ?H HelloChrome_108 ''tcp'' ''example.com:443'') =
      Inr uconn"
    by (simp add: dialTLS_def Let_def UClient_def sp)
  have c: "\<exists>uconn. Conn uconn = 7 \<and>
      dialTLS ?D ?H HelloChrome_108 ''tcp'' ''example.com:443'' =
        (Inr uconn, [DialCall dialer ''tcp'' ''example.com:443'', HandshakeCall uconn])"
    using th3 succeeds by (auto split: if_splits)
  have "?D dialer ''tcp'' ''plain.example:443'' = Inr 7 \<and>
        fst (dialTLS ?D ?H HelloChrome_108 ''tcp'' ''plain.example:443'') =
          Inl ''remote error: tls: handshake failure''"
    using fails by simp
  with th2 lib have "\<forall>hello' network' addr' err'.
          ?D dialer network' addr' = Inl err' \<longrightarrow>
          fst (dialTLS ?D ?H hello' network' addr') \<noteq>
            Inl ''remote error: tls: handshake failure''"
    by blast
  then have d: "fst (dialTLS ?D ?H HelloChrome_108 ''tcp'' ''closed.example:443'') \<noteq>
     Inl ''remote error: tls: handshake failure''"
    by simp
  from a b c d show ?thesis by blast
qed

text \<open>
  Claim C7. For every dial address: the \<^verbatim>\<open>ServerName\<close> of the configuration of every
  handshake that \<^verbatim>\<open>dialTLS\<close> starts (and of every connection it returns) is the host that
  \<^verbatim>\<open>net.SplitHostPort\<close> gives when the split succeeds, and the whole address, as it is,
  when the split fails; and whenever the raw connect succeeds such a handshake is started.
\<close>

theorem dialTLS_ServerName:
  "(\<forall>uconn. HandshakeCall uconn \<in> set (snd (dialTLS Dial Handshake hello network addr)) \<or>
            fst (dialTLS Dial Handshake hello network addr) = Inr uconn \<longrightarrow>
      (\<forall>host port. SplitHostPort addr = Inr (host, port) \<longrightarrow>
         ServerName (config uconn) = host) \<and>
      (\<forall>err. SplitHostPort addr = Inl err \<longrightarrow> ServerName (config uconn) = addr)) \<and>
   (\<forall>rawConn. Dial dialer network addr = Inr rawConn \<longrightarrow>
      (\<exists>uconn. HandshakeCall uconn \<in> set (snd (dialTLS Dial Handshake hello network addr))))"
proof (intro conjI allI impI)
  fix uconn host port
  assume "HandshakeCall uconn \<in> set (snd (dialTLS Dial Handshake hello network addr)) \<or>
          fst (dialTLS Dial Handshake hello network addr) = Inr uconn"
    and "SplitHostPort addr = Inr (host, port)"
  then show "ServerName (config uconn) = host"
    by (auto simp: dialTLS_def Let_def UClient_def split: sum.splits option.splits)
next
  fix uconn err
  assume "HandshakeCall uconn \<in> set (snd (dialTLS Dial Handshake hello network addr)) \<or>
          fst (dialTLS Dial Handshake hello network addr) = Inr uconn"
    and "SplitHostPort addr = Inl err"
  then show "ServerName (config uconn) = addr"
    by (auto simp: dialTLS_def Let_def UClient_def split: sum.splits option.splits)
next
  fix rawConn assume "Dial dialer network addr = Inr rawConn"
  then show "\<exists>uconn. HandshakeCall uconn \<in> set (snd (dialTLS Dial Handshake hello network addr))"
    by (auto simp: dialTLS_def Let_def split: option.splits)
qed

theorem dialTLS_ServerName_witness:
  "snd (dialTLS (\<lambda>d n a. Inr (7::nat)) (\<lambda>u. None :: string option) HelloFirefox_108
          ''tcp'' ''example.com:443'') ! 1 =
     HandshakeCall \<lparr> Conn = 7,
       config = \<lparr> ServerName = ''example.com'', InsecureSkipVerify = True \<rparr>,
       ClientHelloID = HelloFirefox_108 \<rparr> \<and>
   SplitHostPort ''example.com:443'' = Inr (''example.com'', ''443'') \<and>
   snd (dialTLS (\<lambda>d n a. Inr (7::nat)) (\<lambda>u. None :: string option) HelloFirefox_108
          ''tcp'' ''example.com'') ! 1 =
     HandshakeCall \<lparr> Conn = 7,
       config = \<lparr> ServerName = ''example.com'', InsecureSkipVerify = True \<rparr>,
       ClientHelloID = HelloFirefox_108 \<rparr> \<and>
   SplitHostPort ''example.com'' = Inl (AddrError ''missing port in address'' ''example.com'')"
  using dialTLS_ServerName[where Dial = "\<lambda>d n a. Inr (7::nat)"
      and Handshake = "\<lambda>u. None :: string option" and hello = HelloFirefox_108
      and network = "''tcp''" and addr = "''example.com:443''"]
    dialTLS_ServerName[where Dial = "\<lambda>d n a. Inr (7::nat)"
      and Handshake = "\<lambda>u. None :: string option" and hello = HelloFirefox_108
      and network = "''tcp''" and addr = "''example.com''"]
  by (simp add: dialTLS_def Let_def UClient_def SplitHostPort_eval)

text \<open>
  Claim C8. For every request, whatever profile, network and address: every handshake
  that the transport of the HTTP client starts, and every connection it returns, has
  \<^verbatim>\<open>InsecureSkipVerify\<close> set in its configuration, and so has the \<^verbatim>\<open>TLSClientConfig\<close>
  of the transport; no configuration is built in any other way.
\<close>

theorem InsecureSkipVerify_always:
  "(\<forall>network addr uconn.
      HandshakeCall uconn \<in>
        set (snd (DialTLS (Transport (client Dial Handshake hello)) network addr)) \<or>
      fst (DialTLS (Transport (client Dial Handshake hello)) network addr) = Inr uconn \<longrightarrow>
      InsecureSkipVerify (config uconn)) \<and>
   InsecureSkipVerify (TLSClientConfig (Transport (client Dial Handshake hello)))"
  by (auto simp: client_def dialTLS_def Let_def UClient_def split: sum.splits option.splits)

theorem InsecureSkipVerify_always_witness:
  "(\<exists>uconn. fst (DialTLS (Transport (client (\<lambda>d n a. Inr (7::nat))
        (\<lambda>u. None :: string option) HelloSafari_16_0)) ''tcp'' ''self-signed.example:8443'') =
      Inr uconn \<and> InsecureSkipVerify (config uconn)) \<and>
   (\<exists>uconn. HandshakeCall uconn \<in> set (snd (DialTLS (Transport (client (\<lambda>d n a. Inr (7::nat))
        (\<lambda>u. Some ''bad certificate'') HelloSafari_16_0)) ''tcp'' ''self-signed.example:8443'')) \<and>
      InsecureSkipVerify (config uconn))"
  using InsecureSkipVerify_always[where Dial = "\<lambda>d n a. Inr (7::nat)"
      and Handshake = "\<lambda>u. None :: string option" and hello = HelloSafari_16_0]
    InsecureSkipVerify_always[where Dial = "\<lambda>d n a. Inr (7::nat)"
      and Handshake = "\<lambda>u. Some ''bad certificate''" and hello = HelloSafari_16_0]
  by (simp add: client_def dialTLS_def Let_def)


section \<open>The assembled request\<close>

text \<open>
  The loop over the caller's headers writes, under each canonical name, the value of the
  last key of that name that \<^verbatim>\<open>range\<close> yields, and leaves every other name as it was.
\<close>

lemma addCustomHeaders_Nil: "addCustomHeaders [] headers h = h"
  by (simp add: addCustomHeaders_def)

lemma addCustomHeaders_Cons:
  "addCustomHeaders (key # order) headers h =
     addCustomHeaders order headers
       (case headers key of None \<Rightarrow> h | Some value \<Rightarrow> Header_Set h key value)"
  by (simp add: addCustomHeaders_def)

lemma addCustomHeaders_append:
  "addCustomHeaders (pre @ post) headers h =
     addCustomHeaders post headers (addCustomHeaders pre headers h)"
  by (simp add: addCustomHeaders_def)

lemma addCustomHeaders_untouched:
  "\<forall>key\<in>set order. headers key \<noteq> None \<longrightarrow> CanonicalMIMEHeaderKey key \<noteq> name \<Longrightarrow>
     addCustomHeaders order headers h name = h name"
proof (induction order arbitrary: h)
  case Nil
  then show ?case by (simp add: addCustomHeaders_Nil)
next
  case (Cons key order)
  then show ?case
    by (cases "headers key") (auto simp: addCustomHeaders_Cons Header_Set_def)
qed

lemma addCustomHeaders_last:
  assumes "order = pre @ key # post"
    and "headers key = Some value"
    and "\<forall>k\<in>set post. headers k \<noteq> None \<longrightarrow>
           CanonicalMIMEHeaderKey k \<noteq> CanonicalMIMEHeaderKey key"
  shows "addCustomHeaders order headers h (CanonicalMIMEHeaderKey key) = Some [value]"
proof -
  have "addCustomHeaders order headers h =
        addCustomHeaders post headers
          (Header_Set (addCustomHeaders pre headers h) key value)"
    using assms(1,2) by (simp add: addCustomHeaders_append addCustomHeaders_Cons)
  then show ?thesis
    using addCustomHeaders_untouched[OF assms(3)] by (simp add: Header_Set_def)
qed

lemma last_writer:
  assumes "key \<in> set order"
  shows "\<exists>pre key' post. order = pre @ key' # post \<and>
           CanonicalMIMEHeaderKey key' = CanonicalMIMEHeaderKey key \<and>
           (\<forall>k\<in>set post. CanonicalMIMEHeaderKey k \<noteq> CanonicalMIMEHeaderKey key)"
proof -
  from assms have "\<exists>k\<in>set order. CanonicalMIMEHeaderKey k = CanonicalMIMEHeaderKey key"
    by blast
  from split_list_last_prop[OF this] show ?thesis by blast
qed

lemma buildRequest_Header:
  "buildRequest uni parseRest order params = Inr req \<Longrightarrow>
     Header req =
       addCustomHeaders order (Headers params) (setDefaultUserAgent uni params Map.empty)"
  by (auto simp: buildRequest_def NewRequest_def Let_def split: sum.splits if_splits)

lemma custom_headers_written:
  assumes order: "rangeOrder order (Headers params)"
    and req: "buildRequest uni parseRest order params = Inr req"
    and kv: "Headers params key = Some v"
  shows "\<exists>pre key' post v'.
        order = pre @ key' # post \<and>
        Headers params key' = Some v' \<and>
        CanonicalMIMEHeaderKey key' = CanonicalMIMEHeaderKey key \<and>
        (\<forall>k\<in>set post. CanonicalMIMEHeaderKey k \<noteq> CanonicalMIMEHeaderKey key) \<and>
        Header_Values (Header req) key = [v'] \<and>
        Header_Get (Header req) key = v'"
    and "(\<forall>k\<in>dom (Headers params).
           CanonicalMIMEHeaderKey k = CanonicalMIMEHeaderKey key \<longrightarrow> k = key) \<longrightarrow>
         Header_Values (Header req) key = [v] \<and> Header_Get (Header req) key = v"
proof -
  from order have dom: "set order = dom (Headers params)"
    by (simp add: rangeOrder_def)
  from kv dom have mem: "key \<in> set order" by auto
  from last_writer[OF mem] obtain pre key' post where
    split: "order = pre @ key' # post"
    and same: "CanonicalMIMEHeaderKey key' = CanonicalMIMEHeaderKey key"
    and last: "\<forall>k\<in>set post. CanonicalMIMEHeaderKey k \<noteq> CanonicalMIMEHeaderKey key"
    by blast
  from split dom obtain v' where kv': "Headers params key' = Some v'"
    by auto
  have "addCustomHeaders order (Headers params) (setDefaultUserAgent uni params Map.empty)
          (CanonicalMIMEHeaderKey key') = Some [v']"
    using last same
    by (intro addCustomHeaders_last[where headers = "Headers params", OF split kv']) simp
  then have hdr: "Header req (CanonicalMIMEHeaderKey key) = Some [v']"
    using buildRequest_Header[OF req] same by simp
  then have vals: "Header_Values (Header req) key = [v']"
    and get: "Header_Get (Header req) key = v'"
    by (simp_all add: Header_Values_def Header_Get_def)
  show "\<exists>pre key' post v'.
        order = pre @ key' # post \<and>
        Headers params key' = Some v' \<and>
        CanonicalMIMEHeaderKey key' = CanonicalMIMEHeaderKey key \<and>
        (\<forall>k\<in>set post. CanonicalMIMEHeaderKey k \<noteq> CanonicalMIMEHeaderKey key) \<and>
        Header_Values (Header req) key = [v'] \<and>
        Header_Get (Header req) key = v'"
    using split kv' same last vals get by blast
  show "(\<forall>k\<in>dom (Headers params).
           CanonicalMIMEHeaderKey k = CanonicalMIMEHeaderKey key \<longrightarrow> k = key) \<longrightarrow>
         Header_Values (Header req) key = [v] \<and> Header_Get (Header req) key = v"
  proof
    assume alone: "\<forall>k\<in>dom (Headers params).
         CanonicalMIMEHeaderKey k = CanonicalMIMEHeaderKey key \<longrightarrow> k = key"
    from kv' have "key' \<in> dom (Headers params)" by auto
    with alone same have "key' = key" by blast
    with kv kv' have "v' = v" by simp
    with vals get show "Header_Values (Header req) key = [v] \<and> Header_Get (Header req) key = v"
      by simp
  qed
qed

lemma Canonical_User_Agent: "CanonicalMIMEHeaderKey ''User-Agent'' = ''User-Agent''"
  by (simp add: CanonicalMIMEHeaderKey_def Let_def byte_eval)

lemma buildRequest_fields:
  "buildRequest uni parseRest order params = Inr req \<Longrightarrow>
     reqMethod req = (if Method params = [] then ''GET'' else Method params) \<and>
     (\<exists>u. url_Parse uni parseRest (URL params) = Inr u \<and>
          reqURL req = u\<lparr> Host := removeEmptyPort (Host u) \<rparr> \<and>
          reqHost req = removeEmptyPort (Host u)) \<and>
     ReadAll (Body req) = RequestBody params \<and>
     ContentLength req = int (length (RequestBody params))"
  by (auto simp: buildRequest_def NewRequest_def Let_def split: sum.splits if_splits)

text \<open>
  The scheme that \<^verbatim>\<open>getScheme\<close> finds is empty, with the whole text left, or it is
  the text before the first colon, made of letters, digits, \<^verbatim>\<open>+\<close>, \<^verbatim>\<open>-\<close> and \<^verbatim>\<open>.\<close>;
  \<^verbatim>\<open>url.Parse\<close> puts it in lower case and changes it no further.
\<close>

lemma getScheme_loop_prefix:
  "rawURL = pre @ cs \<Longrightarrow> length pre = i \<Longrightarrow> list_all schemeByte pre \<Longrightarrow>
   getScheme_loop rawURL i cs = Inr (scheme, rest) \<Longrightarrow>
     (scheme = [] \<and> rest = rawURL) \<or>
     (rawURL = scheme @ CHR '':'' # rest \<and> scheme \<noteq> [] \<and> list_all schemeByte scheme)"
proof (induction cs arbitrary: pre i)
  case Nil
  then show ?case by simp
next
  case (Cons c cs)
  have step: "rawURL = (pre @ [c]) @ cs" "length (pre @ [c]) = Suc i"
    using Cons.prems by simp_all
  show ?case
  proof (cases "isLowerAZ c \<or> isUpperAZ c \<or>
                (isDigit c \<or> c = CHR ''+'' \<or> c = CHR ''-'' \<or> c = CHR ''.'') \<and> i \<noteq> 0")
    case True
    then have "getScheme_loop rawURL i (c # cs) = getScheme_loop rawURL (Suc i) cs"
      by auto
    with Cons.prems(4) have next_step: "getScheme_loop rawURL (Suc i) cs = Inr (scheme, rest)"
      by simp
    from True have "schemeByte c"
      by (auto simp: schemeByte_def)
    with Cons.prems(3) have "list_all schemeByte (pre @ [c])"
      by simp
    from Cons.IH[OF step this next_step] show ?thesis .
  next
    case False
    with Cons.prems show ?thesis
      by (auto split: if_splits)
  qed
qed

lemma getScheme_prefix:
  "getScheme rawURL = Inr (scheme, rest) \<Longrightarrow>
     (scheme = [] \<and> rest = rawURL) \<or>
     (rawURL = scheme @ CHR '':'' # rest \<and> scheme \<noteq> [] \<and> list_all schemeByte scheme)"
  unfolding getScheme_def by (rule getScheme_loop_prefix[where pre = "[]"]) simp_all

lemma schemeByte_ascii: "list_all schemeByte s \<Longrightarrow> list_all isASCII s"
  by (induction s) (auto simp: schemeByte_def byte_eval)

lemma url_Parse_Scheme:
  assumes "url_Parse uni parseRest rawURL = Inr u"
  shows "\<exists>scheme rest.
           getScheme (takeWhile (\<lambda>c. c \<noteq> CHR ''#'') rawURL) = Inr (scheme, rest) \<and>
           Scheme u = map lowerByte scheme \<and>
           (scheme = [] \<and> rest = takeWhile (\<lambda>c. c \<noteq> CHR ''#'') rawURL \<or>
            takeWhile (\<lambda>c. c \<noteq> CHR ''#'') rawURL = scheme @ CHR '':'' # rest \<and>
            scheme \<noteq> [] \<and> list_all schemeByte scheme)"
proof -
  let ?u = "takeWhile (\<lambda>c. c \<noteq> CHR ''#'') rawURL"
  from assms obtain scheme rest where
    gs: "getScheme ?u = Inr (scheme, rest)"
    and sch: "Scheme u = ToLower uni scheme"
    by (auto simp: url_Parse_def Let_def split: if_splits sum.splits prod.splits)
  from getScheme_prefix[OF gs]
  have shape: "scheme = [] \<and> rest = ?u \<or>
      ?u = scheme @ CHR '':'' # rest \<and> scheme \<noteq> [] \<and> list_all schemeByte scheme" .
  then have "list_all isASCII scheme"
    by (auto dest: schemeByte_ascii)
  then have low: "ToLower uni scheme = map lowerByte scheme"
    by (simp add: ToLower_def)
  show ?thesis
    using gs sch shape low by (intro exI[of _ scheme] exI[of _ rest]) simp
qed

lemma header_default_kept:
  assumes order: "rangeOrder order (Headers params)"
    and req: "buildRequest uni parseRest order params = Inr req"
    and none: "\<forall>key\<in>dom (Headers params). CanonicalMIMEHeaderKey key \<noteq> ''User-Agent''"
  shows "Header req ''User-Agent'' = Some [defaultUserAgent uni (JA3Profile params)]"
proof -
  from none have "Headers params ''User-Agent'' = None"
    using Canonical_User_Agent by (cases "Headers params ''User-Agent''") auto
  then have "setDefaultUserAgent uni params Map.empty ''User-Agent'' =
               Some [defaultUserAgent uni (JA3Profile params)]"
    by (simp add: setDefaultUserAgent_def Header_Set_def Canonical_User_Agent)
  moreover have "addCustomHeaders order (Headers params)
                   (setDefaultUserAgent uni params Map.empty) ''User-Agent'' =
                 setDefaultUserAgent uni params Map.empty ''User-Agent''"
    using none order by (intro addCustomHeaders_untouched) (auto simp: rangeOrder_def)
  ultimately show ?thesis
    using buildRequest_Header[OF req] by simp
qed

lemmas url_eval = url_Parse_def getScheme_def stringContainsCTLByte_def removeEmptyPort_def
  hasPort_def LastIndex_def TrimSuffix_def

lemmas request_eval = buildRequest_def NewRequest_def validMethod_def setDefaultUserAgent_def
  addCustomHeaders_def Header_Set_def Header_Get_def Header_Values_def
  CanonicalMIMEHeaderKey_def defaultUserAgent_def ToLower_def ToUpper_def Let_def

text \<open>
  Claim C3, as the code has it. For every \<^verbatim>\<open>RequestParams\<close> that gives a request, and
  every order in which \<^verbatim>\<open>range\<close> may yield the header map: if the caller's map has
  an entry for the identification header (a key whose canonical header name is
  \<^verbatim>\<open>User-Agent\<close>), the request has exactly one \<^verbatim>\<open>User-Agent\<close> value and it is the
  caller's value, as it is, of the key of that name that \<^verbatim>\<open>range\<close> yields last; it is
  the value of the key \<^verbatim>\<open>User-Agent\<close> itself whenever no other key of the map has that
  canonical name; and if the map has no such entry, the one \<^verbatim>\<open>User-Agent\<close> value is
  the default identification string of the profile.
\<close>

theorem user_agent_precedence:
  assumes order: "rangeOrder order (Headers params)"
    and req: "buildRequest uni parseRest order params = Inr req"
  shows "((\<exists>key\<in>dom (Headers params). CanonicalMIMEHeaderKey key = ''User-Agent'') \<longrightarrow>
            (\<exists>pre key post value.
               order = pre @ key # post \<and>
               Headers params key = Some value \<and>
               CanonicalMIMEHeaderKey key = ''User-Agent'' \<and>
               (\<forall>k\<in>set post. CanonicalMIMEHeaderKey k \<noteq> ''User-Agent'') \<and>
               Header_Values (Header req) ''User-Agent'' = [value] \<and>
               Header_Get (Header req) ''User-Agent'' = value)) \<and>
         (\<forall>value. Headers params ''User-Agent'' = Some value \<and>
            (\<forall>key\<in>dom (Headers params).
               CanonicalMIMEHeaderKey key = ''User-Agent'' \<longrightarrow> key = ''User-Agent'') \<longrightarrow>
            Header_Values (Header req) ''User-Agent'' = [value] \<and>
            Header_Get (Header req) ''User-Agent'' = value) \<and>
         ((\<forall>key\<in>dom (Headers params). CanonicalMIMEHeaderKey key \<noteq> ''User-Agent'') \<longrightarrow>
            Header_Values (Header req) ''User-Agent'' =
              [defaultUserAgent uni (JA3Profile params)] \<and>
            Header_Get (Header req) ''User-Agent'' = defaultUserAgent uni (JA3Profile params))"
proof (intro conjI allI impI)
  assume "\<exists>key\<in>dom (Headers params). CanonicalMIMEHeaderKey key = ''User-Agent''"
  then obtain key0 where k0: "key0 \<in> set order"
    and c0: "CanonicalMIMEHeaderKey key0 = ''User-Agent''"
    using order by (auto simp: rangeOrder_def)
  from last_writer[OF k0] c0 obtain pre key post where
    split: "order = pre @ key # post"
    and same: "CanonicalMIMEHeaderKey key = ''User-Agent''"
    and last: "\<forall>k\<in>set post. CanonicalMIMEHeaderKey k \<noteq> ''User-Agent''"
    by auto
  from split order obtain v where kv: "Headers params key = Some v"
    by (auto simp: rangeOrder_def)
  have "addCustomHeaders order (Headers params) (setDefaultUserAgent uni params Map.empty)
          (CanonicalMIMEHeaderKey key) = Some [v]"
    using last same
    by (intro addCustomHeaders_last[where headers = "Headers params", OF split kv]) simp
  then have "Header req ''User-Agent'' = Some [v]"
    using buildRequest_Header[OF req] same by simp
  then have "Header_Values (Header req) ''User-Agent'' = [v] \<and>
             Header_Get (Header req) ''User-Agent'' = v"
    by (simp add: Header_Values_def Header_Get_def Canonical_User_Agent)
  with split kv same last show "\<exists>pre key post value.
               order = pre @ key # post \<and>
               Headers params key = Some value \<and>
               CanonicalMIMEHeaderKey key = ''User-Agent'' \<and>
               (\<forall>k\<in>set post. CanonicalMIMEHeaderKey k \<noteq> ''User-Agent'') \<and>
               Header_Values (Header req) ''User-Agent'' = [value] \<and>
               Header_Get (Header req) ''User-Agent'' = value"
    by blast
next
  fix v
  assume a: "Headers params ''User-Agent'' = Some v \<and>
            (\<forall>key\<in>dom (Headers params).
               CanonicalMIMEHeaderKey key = ''User-Agent'' \<longrightarrow> key = ''User-Agent'')"
  from custom_headers_written[OF order req, of "''User-Agent''" v] a
  show "Header_Values (Header req) ''User-Agent'' = [v]"
    by (simp add: Canonical_User_Agent)
  from custom_headers_written[OF order req, of "''User-Agent''" v] a
  show "Header_Get (Header req) ''User-Agent'' = v"
    by (simp add: Canonical_User_Agent)
next
  assume none: "\<forall>key\<in>dom (Headers params). CanonicalMIMEHeaderKey key \<noteq> ''User-Agent''"
  from header_default_kept[OF order req none]
  have h: "Header req ''User-Agent'' = Some [defaultUserAgent uni (JA3Profile params)]" .
  then show "Header_Values (Header req) ''User-Agent'' =
              [defaultUserAgent uni (JA3Profile params)]"
    by (simp add: Header_Values_def Canonical_User_Agent)
  from h show "Header_Get (Header req) ''User-Agent'' = defaultUserAgent uni (JA3Profile params)"
    by (simp add: Header_Get_def Canonical_User_Agent)
qed

theorem user_agent_precedence_witness:
  "rangeOrder [''Accept'', ''user-agent'']
     [''Accept'' \<mapsto> ''*/*'', ''user-agent'' \<mapsto> ''curl/8.0''] \<and>
   (\<exists>req. buildRequest id (\<lambda>scheme rest frag. Inr (''example.com'', ''/'') :: unit + string \<times> string) [''Accept'', ''user-agent'']
            \<lparr> URL = ''https://example.com/'', Method = ''GET'', JA3Profile = ''Firefox'',
              Headers = [''Accept'' \<mapsto> ''*/*'', ''user-agent'' \<mapsto> ''curl/8.0''],
              RequestBody = [] \<rparr> = Inr req \<and>
          Header_Values (Header req) ''User-Agent'' = [''curl/8.0'']) \<and>
   rangeOrder [''Accept''] [''Accept'' \<mapsto> ''*/*''] \<and>
   (\<exists>req. buildRequest id (\<lambda>scheme rest frag. Inr (''example.com'', ''/'') :: unit + string \<times> string) [''Accept'']
            \<lparr> URL = ''https://example.com/'', Method = ''GET'', JA3Profile = ''Firefox'',
              Headers = [''Accept'' \<mapsto> ''*/*''],
              RequestBody = [] \<rparr> = Inr req \<and>
          Header_Values (Header req) ''User-Agent'' =
            [''Mozilla/5.0 (Windows NT 10.0; Win64; x64; rv:108.0) Gecko/20100101 Firefox/108.0''])"
proof -
  let ?o1 = "[''Accept'', ''user-agent'']"
  let ?p1 = "\<lparr> URL = ''https://example.com/'', Method = ''GET'', JA3Profile = ''Firefox'',
              Headers = [''Accept'' \<mapsto> ''*/*'', ''user-agent'' \<mapsto> ''curl/8.0''],
              RequestBody = [] \<rparr>"
  let ?o2 = "[''Accept'']"
  let ?p2 = "\<lparr> URL = ''https://example.com/'', Method = ''GET'', JA3Profile = ''Firefox'',
              Headers = [''Accept'' \<mapsto> ''*/*''],
              RequestBody = [] \<rparr>"
  have o1: "rangeOrder ?o1 (Headers ?p1)"
    by (auto simp: rangeOrder_def)
  obtain req1 where r1: "buildRequest id (\<lambda>scheme rest frag. Inr (''example.com'', ''/'') :: unit + string \<times> string) ?o1 ?p1 = Inr req1"
    by (simp add: buildRequest_def NewRequest_def validMethod_def url_eval ToLower_def byte_eval)
  have u1: "Header_Values (Header req1) ''User-Agent'' = [''curl/8.0'']"
  proof -
    have "\<exists>key\<in>dom (Headers ?p1). CanonicalMIMEHeaderKey key = ''User-Agent''"
      by (rule bexI[of _ "''user-agent''"])
        (simp_all add: CanonicalMIMEHeaderKey_def Let_def byte_eval)
    with user_agent_precedence[OF o1 r1] obtain key v where
      kv: "Headers ?p1 key = Some v"
      and c: "CanonicalMIMEHeaderKey key = ''User-Agent''"
      and hv: "Header_Values (Header req1) ''User-Agent'' = [v]"
      by blast
    from kv have "key = ''Accept'' \<or> key = ''user-agent''"
      by (auto split: if_splits)
    moreover have "CanonicalMIMEHeaderKey ''Accept'' \<noteq> ''User-Agent''"
      by (simp add: CanonicalMIMEHeaderKey_def Let_def byte_eval)
    ultimately have "key = ''user-agent''"
      using c by auto
    with kv have "v = ''curl/8.0''" by simp
    with hv show ?thesis by simp
  qed
  have o2: "rangeOrder ?o2 (Headers ?p2)"
    by (auto simp: rangeOrder_def)
  obtain req2 where r2: "buildRequest id (\<lambda>scheme rest frag. Inr (''example.com'', ''/'') :: unit + string \<times> string) ?o2 ?p2 = Inr req2"
    by (simp add: buildRequest_def NewRequest_def validMethod_def url_eval ToLower_def byte_eval)
  have u2: "Header_Values (Header req2) ''User-Agent'' =
            [''Mozilla/5.0 (Windows NT 10.0; Win64; x64; rv:108.0) Gecko/20100101 Firefox/108.0'']"
    using user_agent_precedence[OF o2 r2]
    by (simp add: CanonicalMIMEHeaderKey_def defaultUserAgent_def ToLower_def Let_def byte_eval)
  from o1 r1 u1 o2 r2 u2 show ?thesis by auto
qed

text \<open>
  Claim C3 as stated has the request carry the caller's value whenever the map has a
  \<^verbatim>\<open>User-Agent\<close> entry, and the default otherwise. With the keys \<^verbatim>\<open>User-Agent\<close> and
  \<^verbatim>\<open>user-agent\<close> both in the map, and \<^verbatim>\<open>user-agent\<close> yielded last, the request carries
  the value of \<^verbatim>\<open>user-agent\<close>, not the value the caller gave under \<^verbatim>\<open>User-Agent\<close>. And
  with \<^verbatim>\<open>user-agent\<close> alone, the map has no entry under \<^verbatim>\<open>User-Agent\<close>, the default is
  set, and yet the request carries the caller's value and not the default.
\<close>

theorem user_agent_exact_key_lost:
  "Headers \<lparr> URL = ''https://example.com/'', Method = ''GET'', JA3Profile = ''firefox'',
       Headers = [''User-Agent'' \<mapsto> ''agent-one'', ''user-agent'' \<mapsto> ''agent-two''],
       RequestBody = [] \<rparr> ''User-Agent'' = Some ''agent-one'' \<and>
   buildRequest id (\<lambda>scheme rest frag. Inr (''example.com'', ''/'') :: unit + string \<times> string) [''User-Agent'', ''user-agent'']
     \<lparr> URL = ''https://example.com/'', Method = ''GET'', JA3Profile = ''firefox'',
       Headers = [''User-Agent'' \<mapsto> ''agent-one'', ''user-agent'' \<mapsto> ''agent-two''],
       RequestBody = [] \<rparr> =
   Inr \<lparr> reqMethod = ''GET'',
         reqURL = \<lparr> Scheme = ''https'', Host = ''example.com'', other = ''/'' \<rparr>,
         Header = [''User-Agent'' \<mapsto> [''agent-two'']],
         Body = NoBody, ContentLength = 0, reqHost = ''example.com'' \<rparr> \<and>
   Headers \<lparr> URL = ''https://example.com/'', Method = ''GET'', JA3Profile = ''firefox'',
       Headers = [''user-agent'' \<mapsto> ''curl/8.0''],
       RequestBody = [] \<rparr> ''User-Agent'' = None \<and>
   buildRequest id (\<lambda>scheme rest frag. Inr (''example.com'', ''/'') :: unit + string \<times> string) [''user-agent'']
     \<lparr> URL = ''https://example.com/'', Method = ''GET'', JA3Profile = ''firefox'',
       Headers = [''user-agent'' \<mapsto> ''curl/8.0''],
       RequestBody = [] \<rparr> =
   Inr \<lparr> reqMethod = ''GET'',
         reqURL = \<lparr> Scheme = ''https'', Host = ''example.com'', other = ''/'' \<rparr>,
         Header = [''User-Agent'' \<mapsto> [''curl/8.0'']],
         Body = NoBody, ContentLength = 0, reqHost = ''example.com'' \<rparr> \<and>
   defaultUserAgent id ''firefox'' \<noteq> ''curl/8.0''"
  by (simp add: request_eval url_eval byte_eval)

text \<open>
  Claim C4, as the code has it. For every \<^verbatim>\<open>RequestParams\<close> from which \<^verbatim>\<open>SendRequest\<close>
  gets a request: the method of the request is the \<^verbatim>\<open>Method\<close> string as supplied
  (\<^verbatim>\<open>GET\<close> when it is empty); the upper case is made by \<^verbatim>\<open>main\<close> before it calls
  \<^verbatim>\<open>SendRequest\<close>, so for the parameters that \<^verbatim>\<open>main\<close> builds the method of the request
  is the upper case of the \<^verbatim>\<open>-method\<close> flag (\<^verbatim>\<open>GET\<close> when that is empty), and their
  URL is the positional argument as it is. The URL of the request is what \<^verbatim>\<open>url.Parse\<close>
  makes of the supplied \<^verbatim>\<open>URL\<close> string itself, an empty port taken off the host; its
  scheme is the one written at the head of that string, in lower case, and it is empty
  when the string has none: no scheme is put in, and none is put in the place of another.
\<close>

theorem request_method_and_url:
  "(\<forall>req. buildRequest uni parseRest order params = Inr req \<longrightarrow>
      reqMethod req = (if Method params = [] then ''GET'' else Method params) \<and>
      (\<exists>u. url_Parse uni parseRest (URL params) = Inr u \<and>
         reqURL req = u\<lparr> Host := removeEmptyPort (Host u) \<rparr>) \<and>
      (\<exists>scheme rest.
         getScheme (takeWhile (\<lambda>c. c \<noteq> CHR ''#'') (URL params)) = Inr (scheme, rest) \<and>
         Scheme (reqURL req) = map lowerByte scheme \<and>
         (scheme = [] \<and> rest = takeWhile (\<lambda>c. c \<noteq> CHR ''#'') (URL params) \<or>
          takeWhile (\<lambda>c. c \<noteq> CHR ''#'') (URL params) = scheme @ CHR '':'' # rest \<and>
          scheme \<noteq> [] \<and> list_all schemeByte scheme))) \<and>
   Method (main_params uni' method ja3Profile data headers url) = ToUpper uni' method \<and>
   URL (main_params uni' method ja3Profile data headers url) = url"
proof (intro conjI allI impI)
  fix req assume r: "buildRequest uni parseRest order params = Inr req"
  from buildRequest_fields[OF r]
  show "reqMethod req = (if Method params = [] then ''GET'' else Method params)"
    by simp
  from buildRequest_fields[OF r] obtain u where
    u: "url_Parse uni parseRest (URL params) = Inr u"
    and ru: "reqURL req = u\<lparr> Host := removeEmptyPort (Host u) \<rparr>"
    by blast
  then show "\<exists>u. url_Parse uni parseRest (URL params) = Inr u \<and>
         reqURL req = u\<lparr> Host := removeEmptyPort (Host u) \<rparr>"
    by blast
  from ru have "Scheme (reqURL req) = Scheme u"
    by simp
  with url_Parse_Scheme[OF u]
  show "\<exists>scheme rest.
         getScheme (takeWhile (\<lambda>c. c \<noteq> CHR ''#'') (URL params)) = Inr (scheme, rest) \<and>
         Scheme (reqURL req) = map lowerByte scheme \<and>
         (scheme = [] \<and> rest = takeWhile (\<lambda>c. c \<noteq> CHR ''#'') (URL params) \<or>
          takeWhile (\<lambda>c. c \<noteq> CHR ''#'') (URL params) = scheme @ CHR '':'' # rest \<and>
          scheme \<noteq> [] \<and> list_all schemeByte scheme)"
    by simp
next
  show "Method (main_params uni' method ja3Profile data headers url) = ToUpper uni' method"
    by (simp add: main_params_def)
  show "URL (main_params uni' method ja3Profile data headers url) = url"
    by (simp add: main_params_def)
qed

theorem request_method_and_url_witness:
  "buildRequest id (\<lambda>scheme rest frag. Inr (''example.com:'', ''/x'') :: unit + string \<times> string)
     [''User-Agent'']
     \<lparr> URL = ''HTTPS://example.com:/x'', Method = ''PATCH'', JA3Profile = ''chrome'',
       Headers = [''User-Agent'' \<mapsto> ''curl/8.0''], RequestBody = [] \<rparr> =
   Inr \<lparr> reqMethod = ''PATCH'',
         reqURL = \<lparr> Scheme = ''https'', Host = ''example.com'', other = ''/x'' \<rparr>,
         Header = [''User-Agent'' \<mapsto> [''curl/8.0'']],
         Body = NoBody, ContentLength = 0, reqHost = ''example.com'' \<rparr> \<and>
   buildRequest id (\<lambda>scheme rest frag. Inr (''example.com'', ''/'') :: unit + string \<times> string) [''User-Agent'']
     (main_params id ''post'' ''chrome'' [] [''User-Agent'' \<mapsto> ''curl/8.0'']
        ''http://example.com/'') =
   Inr \<lparr> reqMethod = ''POST'',
         reqURL = \<lparr> Scheme = ''http'', Host = ''example.com'', other = ''/'' \<rparr>,
         Header = [''User-Agent'' \<mapsto> [''curl/8.0'']],
         Body = NoBody, ContentLength = 0, reqHost = ''example.com'' \<rparr> \<and>
   buildRequest id (\<lambda>scheme rest frag. Inr ([], ''example.com/x'') :: unit + string \<times> string)
     [''User-Agent'']
     (main_params id [] ''chrome'' [] [''User-Agent'' \<mapsto> ''curl/8.0''] ''example.com/x'') =
   Inr \<lparr> reqMethod = ''GET'',
         reqURL = \<lparr> Scheme = [], Host = [], other = ''example.com/x'' \<rparr>,
         Header = [''User-Agent'' \<mapsto> [''curl/8.0'']],
         Body = NoBody, ContentLength = 0, reqHost = [] \<rparr>"
proof -
  let ?h = "[''User-Agent'' \<mapsto> ''curl/8.0'']"
  let ?P1 = "\<lambda>scheme rest frag. Inr (''example.com:'', ''/x'') :: unit + string \<times> string"
  let ?P2 = "\<lambda>scheme rest frag. Inr (''example.com'', ''/'') :: unit + string \<times> string"
  let ?P3 = "\<lambda>scheme rest frag. Inr ([], ''example.com/x'') :: unit + string \<times> string"
  let ?p1 = "\<lparr> URL = ''HTTPS://example.com:/x'', Method = ''PATCH'', JA3Profile = ''chrome'',
       Headers = ?h, RequestBody = [] \<rparr>"
  let ?p2 = "main_params id ''post'' ''chrome'' [] ?h ''http://example.com/''"
  let ?p3 = "main_params id [] ''chrome'' [] ?h ''example.com/x''"
  obtain req1 where r1: "buildRequest id ?P1 [''User-Agent''] ?p1 = Inr req1"
    by (simp add: request_eval url_eval byte_eval)
  obtain req2 where r2: "buildRequest id ?P2 [''User-Agent''] ?p2 = Inr req2"
    by (simp add: request_eval url_eval main_params_def byte_eval)
  obtain req3 where r3: "buildRequest id ?P3 [''User-Agent''] ?p3 = Inr req3"
    by (simp add: request_eval url_eval main_params_def byte_eval)
  note th1 = request_method_and_url[where uni = id and parseRest = ?P1 and params = ?p1
      and order = "[''User-Agent'']", THEN conjunct1, rule_format, OF r1]
  note th2 = request_method_and_url[where uni = id and parseRest = ?P2 and params = ?p2
      and order = "[''User-Agent'']", THEN conjunct1, rule_format, OF r2]
  note th3 = request_method_and_url[where uni = id and parseRest = ?P3 and params = ?p3
      and order = "[''User-Agent'']", THEN conjunct1, rule_format, OF r3]
  have m1: "reqMethod req1 = ''PATCH''"
    using th1 by simp
  have m2: "reqMethod req2 = ''POST''"
    using th2 by (simp add: main_params_def ToUpper_def byte_eval)
  have m3: "reqMethod req3 = ''GET''"
    using th3 by (simp add: main_params_def ToUpper_def byte_eval)
  have e1: "buildRequest id ?P1 [''User-Agent''] ?p1 =
   Inr \<lparr> reqMethod = ''PATCH'',
         reqURL = \<lparr> Scheme = ''https'', Host = ''example.com'', other = ''/x'' \<rparr>,
         Header = [''User-Agent'' \<mapsto> [''curl/8.0'']],
         Body = NoBody, ContentLength = 0, reqHost = ''example.com'' \<rparr>"
    using m1 r1 by (simp add: request_eval url_eval byte_eval)
  have e2: "buildRequest id ?P2 [''User-Agent''] ?p2 =
   Inr \<lparr> reqMethod = ''POST'',
         reqURL = \<lparr> Scheme = ''http'', Host = ''example.com'', other = ''/'' \<rparr>,
         Header = [''User-Agent'' \<mapsto> [''curl/8.0'']],
         Body = NoBody, ContentLength = 0, reqHost = ''example.com'' \<rparr>"
    using m2 r2 by (simp add: request_eval url_eval main_params_def byte_eval)
  have e3: "buildRequest id ?P3 [''User-Agent''] ?p3 =
   Inr \<lparr> reqMethod = ''GET'',
         reqURL = \<lparr> Scheme = [], Host = [], other = ''example.com/x'' \<rparr>,
         Header = [''User-Agent'' \<mapsto> [''curl/8.0'']],
         Body = NoBody, ContentLength = 0, reqHost = [] \<rparr>"
    using m3 r3 by (simp add: request_eval url_eval main_params_def byte_eval)
  from e1 e2 e3 show ?thesis by simp
qed

text \<open>
  Claim C4 as stated has \<^verbatim>\<open>SendRequest\<close> put the method in upper case for every
  \<^verbatim>\<open>RequestParams\<close>. Called with the method \<^verbatim>\<open>get\<close>, it builds a request whose method
  is \<^verbatim>\<open>get\<close>, not \<^verbatim>\<open>GET\<close>.
\<close>

theorem request_method_not_upper_cased:
  "buildRequest id (\<lambda>scheme rest frag. Inr (''example.com'', ''/'') :: unit + string \<times> string) [''User-Agent'']
     \<lparr> URL = ''https://example.com/'', Method = ''get'', JA3Profile = ''chrome'',
       Headers = [''User-Agent'' \<mapsto> ''curl/8.0''], RequestBody = [] \<rparr> =
   Inr \<lparr> reqMethod = ''get'', reqURL = \<lparr> Scheme = ''https'', Host = ''example.com'', other = ''/'' \<rparr>,
         Header = [''User-Agent'' \<mapsto> [''curl/8.0'']], Body = NoBody, ContentLength = 0, reqHost = ''example.com'' \<rparr> \<and>
   ToUpper id ''get'' = ''GET''"
  by (simp add: request_eval url_eval byte_eval)

text \<open>
  Claim C5, as the code has it. For every \<^verbatim>\<open>RequestParams\<close> that gives a request, and
  every order in which \<^verbatim>\<open>range\<close> may yield the header map: each key the caller
  supplied appears in the request, under its canonical header name, with exactly one
  value; that value is the one the caller gave for the key of the same canonical name that
  \<^verbatim>\<open>range\<close> yields last, whatever was set under that name before (the default
  identification header too); and it is the caller's value for the key itself whenever no
  other key of the map has the same canonical name.
\<close>

theorem custom_headers_last_write_wins:
  assumes order: "rangeOrder order (Headers params)"
    and req: "buildRequest uni parseRest order params = Inr req"
  shows "\<forall>key value. Headers params key = Some value \<longrightarrow>
     (\<exists>pre key' post value'.
        order = pre @ key' # post \<and>
        Headers params key' = Some value' \<and>
        CanonicalMIMEHeaderKey key' = CanonicalMIMEHeaderKey key \<and>
        (\<forall>k\<in>set post. CanonicalMIMEHeaderKey k \<noteq> CanonicalMIMEHeaderKey key) \<and>
        Header_Values (Header req) key = [value'] \<and>
        Header_Get (Header req) key = value') \<and>
     ((\<forall>k\<in>dom (Headers params).
         CanonicalMIMEHeaderKey k = CanonicalMIMEHeaderKey key \<longrightarrow> k = key) \<longrightarrow>
      Header_Values (Header req) key = [value] \<and> Header_Get (Header req) key = value)"
  using custom_headers_written[OF order req] by blast

theorem custom_headers_last_write_wins_witness:
  "rangeOrder [''user-agent'', ''content-type'']
     [''content-type'' \<mapsto> ''application/json'', ''user-agent'' \<mapsto> ''curl/8.0''] \<and>
   (\<exists>req. buildRequest id (\<lambda>scheme rest frag. Inr (''example.com'', ''/api'') :: unit + string \<times> string) [''user-agent'', ''content-type'']
            \<lparr> URL = ''https://example.com/api'', Method = ''POST'', JA3Profile = ''chrome'',
              Headers = [''content-type'' \<mapsto> ''application/json'',
                         ''user-agent'' \<mapsto> ''curl/8.0''],
              RequestBody = ''{}'' \<rparr> = Inr req \<and>
          Header_Values (Header req) ''content-type'' = [''application/json''] \<and>
          Header_Values (Header req) ''user-agent'' = [''curl/8.0''] \<and>
          Header_Get (Header req) ''User-Agent'' = ''curl/8.0'')"
proof -
  let ?order = "[''user-agent'', ''content-type'']"
  let ?p = "\<lparr> URL = ''https://example.com/api'', Method = ''POST'', JA3Profile = ''chrome'',
              Headers = [''content-type'' \<mapsto> ''application/json'',
                         ''user-agent'' \<mapsto> ''curl/8.0''],
              RequestBody = ''{}'' \<rparr>"
  have o: "rangeOrder ?order (Headers ?p)"
    by (auto simp: rangeOrder_def)
  obtain req where r: "buildRequest id (\<lambda>scheme rest frag. Inr (''example.com'', ''/api'') :: unit + string \<times> string) ?order ?p = Inr req"
    by (simp add: buildRequest_def NewRequest_def validMethod_def url_eval ToLower_def byte_eval)
  note th = custom_headers_last_write_wins[OF o r, rule_format]
  have ct: "Header_Values (Header req) ''content-type'' = [''application/json'']"
    using th[of "''content-type''" "''application/json''"]
    by (simp add: CanonicalMIMEHeaderKey_def Let_def byte_eval)
  have ua: "Header_Values (Header req) ''user-agent'' = [''curl/8.0''] \<and>
            Header_Get (Header req) ''user-agent'' = ''curl/8.0''"
    using th[of "''user-agent''" "''curl/8.0''"]
    by (simp add: CanonicalMIMEHeaderKey_def Let_def byte_eval)
  have "Header_Get (Header req) ''User-Agent'' = Header_Get (Header req) ''user-agent''"
    by (simp add: Header_Get_def CanonicalMIMEHeaderKey_def Let_def byte_eval)
  with o r ct ua show ?thesis by auto
qed

text \<open>
  Claim C5 as stated has every key of the caller appear with the caller's value for that
  key. The map may hold \<^verbatim>\<open>User-Agent\<close> and \<^verbatim>\<open>user-agent\<close>, two keys with one canonical
  name: the request then holds one \<^verbatim>\<open>User-Agent\<close> value, that of the key yielded last, and
  in either order the value of the other key is in the request nowhere.
\<close>

theorem custom_headers_same_name_lost:
  "buildRequest id (\<lambda>scheme rest frag. Inr (''example.com'', ''/'') :: unit + string \<times> string) [''User-Agent'', ''user-agent'']
     \<lparr> URL = ''https://example.com/'', Method = ''GET'', JA3Profile = ''chrome'',
       Headers = [''User-Agent'' \<mapsto> ''agent-one'', ''user-agent'' \<mapsto> ''agent-two''],
       RequestBody = [] \<rparr> =
   Inr \<lparr> reqMethod = ''GET'', reqURL = \<lparr> Scheme = ''https'', Host = ''example.com'', other = ''/'' \<rparr>,
         Header = [''User-Agent'' \<mapsto> [''agent-two'']],
         Body = NoBody, ContentLength = 0, reqHost = ''example.com'' \<rparr> \<and>
   buildRequest id (\<lambda>scheme rest frag. Inr (''example.com'', ''/'') :: unit + string \<times> string) [''user-agent'', ''User-Agent'']
     \<lparr> URL = ''https://example.com/'', Method = ''GET'', JA3Profile = ''chrome'',
       Headers = [''User-Agent'' \<mapsto> ''agent-one'', ''user-agent'' \<mapsto> ''agent-two''],
       RequestBody = [] \<rparr> =
   Inr \<lparr> reqMethod = ''GET'', reqURL = \<lparr> Scheme = ''https'', Host = ''example.com'', other = ''/'' \<rparr>,
         Header = [''User-Agent'' \<mapsto> [''agent-one'']],
         Body = NoBody, ContentLength = 0, reqHost = ''example.com'' \<rparr>"
  by (simp add: request_eval url_eval byte_eval)

text \<open>
  Claim C6. For every \<^verbatim>\<open>RequestParams\<close> that gives a request: reading the body of the
  request to its end yields exactly the bytes of \<^verbatim>\<open>RequestBody\<close>, its length is the
  content length, and with no body given (the empty string) the body is \<^verbatim>\<open>NoBody\<close>
  and yields nothing.
\<close>

theorem request_body:
  "\<forall>req. buildRequest uni parseRest order params = Inr req \<longrightarrow>
     ReadAll (Body req) = RequestBody params \<and>
     ContentLength req = int (length (RequestBody params)) \<and>
     (RequestBody params = [] \<longrightarrow> Body req = NoBody \<and> ReadAll (Body req) = [])"
  by (auto simp: buildRequest_def NewRequest_def Let_def split: sum.splits if_splits)

theorem request_body_witness:
  \<open>(\<exists>req. buildRequest id (\<lambda>scheme rest frag. Inr (''example.com'', ''/api'') :: unit + string \<times> string) [''Content-Type'']
       \<lparr> URL = ''https://example.com/api'', Method = ''POST'', JA3Profile = ''chrome'',
         Headers = [''Content-Type'' \<mapsto> ''application/json''],
         RequestBody = ''{"a":1}'' \<rparr> = Inr req \<and>
      ReadAll (Body req) = ''{"a":1}'' \<and> ContentLength req = 7) \<and>
   (\<exists>req. buildRequest id (\<lambda>scheme rest frag. Inr (''example.com'', ''/'') :: unit + string \<times> string) []
       \<lparr> URL = ''https://example.com/'', Method = ''GET'', JA3Profile = ''chrome'',
         Headers = Map.empty, RequestBody = [] \<rparr> = Inr req \<and>
      ReadAll (Body req) = [] \<and> Body req = NoBody)\<close>
proof -
  let ?p1 = \<open>\<lparr> URL = ''https://example.com/api'', Method = ''POST'', JA3Profile = ''chrome'',
         Headers = [''Content-Type'' \<mapsto> ''application/json''],
         RequestBody = ''{"a":1}'' \<rparr>\<close>
  let ?p2 = "\<lparr> URL = ''https://example.com/'', Method = ''GET'', JA3Profile = ''chrome'',
         Headers = Map.empty, RequestBody = [] \<rparr>"
  obtain req1 where r1:
    "buildRequest id (\<lambda>scheme rest frag. Inr (''example.com'', ''/api'') :: unit + string \<times> string) [''Content-Type''] ?p1 = Inr req1"
    by (simp add: buildRequest_def NewRequest_def validMethod_def url_eval ToLower_def byte_eval)
  obtain req2 where r2:
    "buildRequest id (\<lambda>scheme rest frag. Inr (''example.com'', ''/'') :: unit + string \<times> string) [] ?p2 = Inr req2"
    by (simp add: buildRequest_def NewRequest_def validMethod_def url_eval ToLower_def byte_eval)
  from request_body[rule_format, OF r1] request_body[rule_format, OF r2] r1 r2
  show ?thesis by auto
qed



end
